theory Spec2Isabelle
  imports Complex_Main
begin

section \<open>Python values handled by \<open>pymilvus/orm/schema.py\<close>\<close>

text \<open>
  Scalars are the values pandas' \<open>is_scalar\<close> accepts. Floats are carried as an opaque
  payload: the module never computes with them. \<open>SNaN\<close> is \<open>float('nan')\<close>, which
  pandas' \<open>isnull\<close> treats like \<open>None\<close>.
\<close>

datatype pyscalar = SBool bool | SInt int | SFloat real | SNaN | SStr string | SBytes string

text \<open>
  \<open>schema_types.ValueField\<close> is a protobuf message with one \<open>oneof data\<close>. The model
  keeps which variant is set and the scalar stored in it; \<open>None\<close> is a message with no
  variant set.
\<close>

datatype oneof_data = bool_data | int_data | long_data | float_data | double_data | string_data

datatype ValueField = ValueField "(oneof_data \<times> pyscalar) option"

fun WhichOneof :: "ValueField \<Rightarrow> oneof_data option" where
  "WhichOneof (ValueField v) = map_option fst v"

datatype pyval =
    PNone
  | PScalar pyscalar
  | PList "pyval list"
  | PDict "(pyval \<times> pyval) list"
  | PValueField ValueField

abbreviation PBool :: "bool \<Rightarrow> pyval" where "PBool b \<equiv> PScalar (SBool b)"
abbreviation PInt :: "int \<Rightarrow> pyval" where "PInt i \<equiv> PScalar (SInt i)"
abbreviation PStr :: "string \<Rightarrow> pyval" where "PStr s \<equiv> PScalar (SStr s)"

text \<open>Python truthiness (\<open>if x:\<close>); a protobuf message is always true.\<close>

fun truthy :: "pyval \<Rightarrow> bool" where
  "truthy PNone = False"
| "truthy (PScalar (SBool b)) = b"
| "truthy (PScalar (SInt i)) = (i \<noteq> 0)"
| "truthy (PScalar (SFloat r)) = (r \<noteq> 0)"
| "truthy (PScalar SNaN) = True"
| "truthy (PScalar (SStr s)) = (s \<noteq> [])"
| "truthy (PScalar (SBytes s)) = (s \<noteq> [])"
| "truthy (PList xs) = (xs \<noteq> [])"
| "truthy (PDict kvs) = (kvs \<noteq> [])"
| "truthy (PValueField v) = True"

text \<open>\<open>isinstance(v, bool)\<close> and \<open>isinstance(v, str)\<close>.\<close>

fun as_bool :: "pyval \<Rightarrow> bool option" where
  "as_bool (PScalar (SBool b)) = Some b"
| "as_bool v = None"

fun is_str :: "pyval \<Rightarrow> bool" where
  "is_str (PScalar (SStr s)) = True"
| "is_str v = False"

text \<open>\<open>d.get(k, default)\<close> on a keyword dictionary.\<close>

definition dict_get :: "(string \<rightharpoonup> pyval) \<Rightarrow> string \<Rightarrow> pyval \<Rightarrow> pyval" where
  "dict_get d k dflt = (case d k of None \<Rightarrow> dflt | Some v \<Rightarrow> v)"

section \<open>The type enumeration, the exceptions and the collaborators\<close>

text \<open>
  Modelled from the spec: the \<open>DataType\<close> enumeration lives in \<open>orm/types.py\<close>, which
  is not part of the sources at hand. The members are the ones \<open>schema.py\<close> names;
  \<open>UNKNOWN\<close> is the sentinel.
\<close>

datatype DataType =
    BOOL | INT8 | INT16 | INT32 | INT64 | FLOAT | DOUBLE | VARCHAR
  | BINARY_VECTOR | FLOAT_VECTOR | UNKNOWN

text \<open>
  The argument of \<open>DataType(dtype)\<close>: a value of the enumeration, or anything else, on
  which the enumeration raises \<open>ValueError\<close>.
\<close>

datatype dtype_arg = Member DataType | NotAMember

text \<open>
  The messages: the members of \<open>ExceptionsMessage\<close> that the module uses, with their
  format arguments, and the module's own literal messages.
\<close>

datatype msg =
    FieldsType | FieldType | PrimaryFieldType | PartitionKeyFieldType | AutoIDType
  | PrimaryKeyOnlyOne pyval string | PartitionKeyOnlyOne pyval string
  | PrimaryKeyNotExist | PrimaryKeyType | PartitionKeyNotPrimary | PartitionKeyType
  | PartitionKeyFieldNotExist pyval
  | FieldDtype | IsPrimaryType | AutoIDOnlyOnPK | IsPartitionKeyType
  | DataFrameInvalid | UpsertAutoIDTrue
  | DefaultValueUnsupported DataType
  | DataShouldBeListOrDataFrameOrDict
  | DataShouldBeListOrDataFrame
  | DataShouldBeListOfList
  | SchemaShouldntBeNone
  | ExpectNoDataForAutoID string
  | FieldsDontMatch "string list" "string list"
  | DataTypeDoesntMatch string DataType DataType
  | NameDoesntMatch string string

datatype error =
    AutoIDException msg
  | CannotInferSchemaException msg
  | DataNotMatchException msg
  | DataTypeNotSupportException msg
  | FieldsTypeException msg
  | FieldTypeException msg
  | ParamError msg
  | PartitionKeyException msg
  | PrimaryKeyException msg
  | SchemaNotReadyException msg
  | UpsertAutoIDTrueException msg
  | IndexError | KeyError | TypeError | ValueError | AttributeError

fun is_PrimaryKeyError :: "error + 'a \<Rightarrow> bool" where
  "is_PrimaryKeyError (Inl (PrimaryKeyException m)) = True"
| "is_PrimaryKeyError r = False"

fun is_PartitionKeyError :: "error + 'a \<Rightarrow> bool" where
  "is_PartitionKeyError (Inl (PartitionKeyException m)) = True"
| "is_PartitionKeyError r = False"

fun is_DataNotMatch :: "error + 'a \<Rightarrow> bool" where
  "is_DataNotMatch (Inl (DataNotMatchException m)) = True"
| "is_DataNotMatch r = False"

text \<open>
  What the module imports and the sources at hand do not hold is a parameter of the
  model: the tuple \<open>COMMON_TYPE_PARAMS\<close> of \<open>orm/constants.py\<close> and the three
  functions of \<open>orm/types.py\<close>. A numpy column type is named by a string.
\<close>

record collab =
  COMMON_TYPE_PARAMS :: "string list"
  infer_dtype_by_scaladata :: "pyscalar \<Rightarrow> DataType"
  infer_dtype_bydata :: "pyval \<Rightarrow> DataType"
  map_numpy_dtype_to_datatype :: "string \<Rightarrow> DataType"

section \<open>FieldSchema\<close>

record FieldSchema =
  name :: string
  dtype :: DataType
  description :: string
  type_params :: "string \<rightharpoonup> pyval"
  kwargs :: "string \<rightharpoonup> pyval"
  is_primary :: bool
  is_dynamic :: pyval
  auto_id :: bool
  is_partition_key :: bool
  default_value :: "ValueField option"

text \<open>
  \<open>infer_default_value_bydata\<close>: \<open>None\<close> stays \<open>None\<close>; a scalar is stored under the
  variant of its inferred type; anything else keeps \<open>d_type = UNKNOWN\<close> and raises.
\<close>

fun infer_default_value_bydata :: "collab \<Rightarrow> pyval \<Rightarrow> error + ValueField option" where
  "infer_default_value_bydata E PNone = Inr None"
| "infer_default_value_bydata E (PScalar s) =
     (let d_type = infer_dtype_by_scaladata E s in
      if d_type = BOOL then Inr (Some (ValueField (Some (bool_data, s))))
      else if d_type \<in> {INT8, INT16, INT32} then Inr (Some (ValueField (Some (int_data, s))))
      else if d_type = INT64 then Inr (Some (ValueField (Some (long_data, s))))
      else if d_type = FLOAT then Inr (Some (ValueField (Some (float_data, s))))
      else if d_type = DOUBLE then Inr (Some (ValueField (Some (double_data, s))))
      else if d_type = VARCHAR then Inr (Some (ValueField (Some (string_data, s))))
      else Inl (ParamError (DefaultValueUnsupported d_type)))"
| "infer_default_value_bydata E v = Inl (ParamError (DefaultValueUnsupported UNKNOWN))"

text \<open>
  \<open>_parse_type_params\<close>: only for the two vector types and \<open>VARCHAR\<close>, and only the
  keywords listed in \<open>COMMON_TYPE_PARAMS\<close> are kept.
\<close>

definition parse_type_params :: "collab \<Rightarrow> DataType \<Rightarrow> (string \<rightharpoonup> pyval) \<Rightarrow> (string \<rightharpoonup> pyval)" where
  "parse_type_params E dt kw =
     (if dt \<notin> {BINARY_VECTOR, FLOAT_VECTOR, VARCHAR} then Map.empty
      else if dom kw = {} then Map.empty
      else foldl (\<lambda>tp k. case kw k of None \<Rightarrow> tp | Some v \<Rightarrow> tp(k \<mapsto> v))
             Map.empty (COMMON_TYPE_PARAMS E))"

text \<open>\<open>FieldSchema.__init__\<close>, check by check in the order of the source.\<close>

definition check_auto_id :: "(string \<rightharpoonup> pyval) \<Rightarrow> bool \<Rightarrow> error + bool" where
  "check_auto_id kw ip =
     (case kw ''auto_id'' of
        None \<Rightarrow> Inr False
      | Some a \<Rightarrow>
          (case as_bool a of
             None \<Rightarrow> Inl (AutoIDException AutoIDType)
           | Some b \<Rightarrow> if \<not> ip \<and> b then Inl (PrimaryKeyException AutoIDOnlyOnPK) else Inr b))"

definition init_default_value :: "collab \<Rightarrow> (string \<rightharpoonup> pyval) \<Rightarrow> error + ValueField option" where
  "init_default_value E kw =
     (case dict_get kw ''default_value'' PNone of
        PValueField vf \<Rightarrow> Inr (if WhichOneof vf = None then None else Some vf)
      | v \<Rightarrow> infer_default_value_bydata E v)"

definition FieldSchema_init ::
  "collab \<Rightarrow> string \<Rightarrow> dtype_arg \<Rightarrow> string \<Rightarrow> (string \<rightharpoonup> pyval) \<Rightarrow> error + FieldSchema" where
  "FieldSchema_init E nm dt descr kw =
     (case dt of
        NotAMember \<Rightarrow> Inl (DataTypeNotSupportException FieldDtype)
      | Member d \<Rightarrow>
          if d = UNKNOWN then Inl (DataTypeNotSupportException FieldDtype)
          else
            (case as_bool (dict_get kw ''is_primary'' (PBool False)) of
               None \<Rightarrow> Inl (PrimaryKeyException IsPrimaryType)
             | Some ip \<Rightarrow>
                 (case check_auto_id kw ip of
                    Inl e \<Rightarrow> Inl e
                  | Inr aid \<Rightarrow>
                      (case as_bool (dict_get kw ''is_partition_key'' (PBool False)) of
                         None \<Rightarrow> Inl (PartitionKeyException IsPartitionKeyType)
                       | Some ipk \<Rightarrow>
                           (case init_default_value E kw of
                              Inl e \<Rightarrow> Inl e
                            | Inr dv \<Rightarrow>
                                Inr \<lparr> name = nm, dtype = d, description = descr,
                                      type_params = parse_type_params E d kw,
                                      kwargs = kw, is_primary = ip,
                                      is_dynamic = dict_get kw ''is_dynamic'' (PBool False),
                                      auto_id = aid, is_partition_key = ipk,
                                      default_value = dv \<rparr>)))))"

text \<open>
  \<open>FieldSchema.__getattr__\<close>: Python calls it only for a name that the normal lookup
  does not find, that is, a name that is not a stored attribute of the object.
\<close>

definition FieldSchema_getattr :: "FieldSchema \<Rightarrow> string \<Rightarrow> pyval" where
  "FieldSchema_getattr f item =
     (if dom (type_params f) \<noteq> {}
      then (case type_params f item of Some v \<Rightarrow> v | None \<Rightarrow> PNone)
      else PNone)"

text \<open>
  The plain mapping \<open>to_dict\<close> builds. A key that the source adds only under a
  condition is an optional component (\<open>None\<close>: the key is absent). \<open>default_value\<close>
  can be present with the value \<open>None\<close>: \<open>to_dict\<close> resets an attribute holding a
  message with no variant set and then stores the reset attribute.
\<close>

record FieldDict =
  d_name :: string
  d_description :: string
  d_type :: DataType
  d_params :: "(string \<rightharpoonup> pyval) option"
  d_is_primary :: "bool option"
  d_auto_id :: "bool option"
  d_is_partition_key :: "bool option"
  d_default_value :: "ValueField option option"
  d_is_dynamic :: "pyval option"

definition to_dict :: "FieldSchema \<Rightarrow> FieldDict" where
  "to_dict f =
     \<lparr> d_name = name f, d_description = description f, d_type = dtype f,
       d_params = (if dom (type_params f) \<noteq> {} then Some (type_params f) else None),
       d_is_primary = (if is_primary f then Some True else None),
       d_auto_id = (if is_primary f then Some (auto_id f) else None),
       d_is_partition_key = (if is_partition_key f then Some True else None),
       d_default_value =
         (case default_value f of
            None \<Rightarrow> None
          | Some vf \<Rightarrow> Some (if WhichOneof vf = None then None else Some vf)),
       d_is_dynamic = (if truthy (is_dynamic f) then Some (is_dynamic f) else None) \<rparr>"

text \<open>\<open>FieldSchema.__eq__\<close> compares the two \<open>to_dict\<close> forms.\<close>

definition FieldSchema_eq :: "FieldSchema \<Rightarrow> FieldSchema \<Rightarrow> bool" where
  "FieldSchema_eq f g = (to_dict f = to_dict g)"

text \<open>
  \<open>FieldSchema.construct_from_dict\<close>: the keyword dictionary starts from \<open>params\<close>; the
  later assignments overwrite a key of the same name.
\<close>

definition from_dict_kwargs :: "FieldDict \<Rightarrow> (string \<rightharpoonup> pyval)" where
  "from_dict_kwargs raw =
     (let k0 = (case d_params raw of None \<Rightarrow> Map.empty | Some ps \<Rightarrow> ps);
          k1 = k0(''is_primary'' \<mapsto> PBool (case d_is_primary raw of None \<Rightarrow> False | Some b \<Rightarrow> b));
          k2 = (case d_auto_id raw of None \<Rightarrow> k1 | Some a \<Rightarrow> k1(''auto_id'' \<mapsto> PBool a));
          k3 = k2(''is_partition_key'' \<mapsto>
                    PBool (case d_is_partition_key raw of None \<Rightarrow> False | Some b \<Rightarrow> b));
          k4 = k3(''default_value'' \<mapsto>
                    (case d_default_value raw of Some (Some vf) \<Rightarrow> PValueField vf | _ \<Rightarrow> PNone))
      in k4(''is_dynamic'' \<mapsto> (case d_is_dynamic raw of None \<Rightarrow> PBool False | Some v \<Rightarrow> v)))"

definition construct_from_dict :: "collab \<Rightarrow> FieldDict \<Rightarrow> error + FieldSchema" where
  "construct_from_dict E raw =
     FieldSchema_init E (d_name raw) (Member (d_type raw)) (d_description raw)
       (from_dict_kwargs raw)"

text \<open>\<open>FieldSchema.__deepcopy__\<close>, and \<open>copy.deepcopy\<close> of a list of fields.\<close>

definition FieldSchema_deepcopy :: "collab \<Rightarrow> FieldSchema \<Rightarrow> error + FieldSchema" where
  "FieldSchema_deepcopy E f = construct_from_dict E (to_dict f)"

fun deepcopy_fields :: "collab \<Rightarrow> FieldSchema list \<Rightarrow> error + FieldSchema list" where
  "deepcopy_fields E [] = Inr []"
| "deepcopy_fields E (f # fs) =
     (case FieldSchema_deepcopy E f of
        Inl e \<Rightarrow> Inl e
      | Inr g \<Rightarrow> (case deepcopy_fields E fs of Inl e \<Rightarrow> Inl e | Inr gs \<Rightarrow> Inr (g # gs)))"

section \<open>CollectionSchema\<close>

text \<open>
  \<open>_primary_field\<close> and \<open>_partition_key_field\<close> are references to elements of
  \<open>_fields\<close>: an assignment through one of them changes the element of the list. The
  model keeps the position of the element; the accessors read the list there.
  The argument \<open>fields\<close> is a list of \<open>FieldSchema\<close> by its type, so the two
  \<open>isinstance\<close> checks on it always pass.
\<close>

record CollectionSchema =
  cs_fields :: "FieldSchema list"
  cs_description :: string
  cs_kwargs :: "string \<rightharpoonup> pyval"
  cs_enable_dynamic_field :: pyval
  cs_primary_field :: "nat option"
  cs_partition_key_field :: "nat option"

definition primary_field :: "CollectionSchema \<Rightarrow> FieldSchema option" where
  "primary_field s = map_option (\<lambda>i. cs_fields s ! i) (cs_primary_field s)"

definition partition_key_field :: "CollectionSchema \<Rightarrow> FieldSchema option" where
  "partition_key_field s = map_option (\<lambda>i. cs_fields s ! i) (cs_partition_key_field s)"

definition validate_primary_key :: "FieldSchema option \<Rightarrow> error + unit" where
  "validate_primary_key pf =
     (case pf of
        None \<Rightarrow> Inl (PrimaryKeyException PrimaryKeyNotExist)
      | Some f \<Rightarrow>
          if dtype f \<notin> {INT64, VARCHAR} then Inl (PrimaryKeyException PrimaryKeyType)
          else Inr ())"

text \<open>
  \<open>validate_partition_key\<close>. In its first branch the source builds the exception
  \<open>PartitionKeyException(PartitionKeyNotPrimary)\<close> and does not raise it: the value is
  dropped and the function goes on to the type check.
\<close>

definition validate_partition_key :: "pyval \<Rightarrow> FieldSchema option \<Rightarrow> string \<Rightarrow> error + unit" where
  "validate_partition_key partition_key_field_name pkf primary_field_name =
     (case pkf of
        Some f \<Rightarrow>
          (let dropped = (if name f = primary_field_name
                          then Some (PartitionKeyException PartitionKeyNotPrimary) else None)
           in if dtype f \<notin> {INT64, VARCHAR} then Inl (PartitionKeyException PartitionKeyType)
              else Inr ())
      | None \<Rightarrow>
          if partition_key_field_name \<noteq> PNone
          then Inl (PartitionKeyException (PartitionKeyFieldNotExist partition_key_field_name))
          else Inr ())"

definition check_kwargs :: "CollectionSchema \<Rightarrow> error + unit" where
  "check_kwargs s =
     (let primary_field_name = dict_get (cs_kwargs s) ''primary_field'' PNone;
          partition_key_field_name = dict_get (cs_kwargs s) ''partition_key_field'' PNone
      in if primary_field_name \<noteq> PNone \<and> \<not> is_str primary_field_name
         then Inl (PrimaryKeyException PrimaryFieldType)
         else if partition_key_field_name \<noteq> PNone \<and> \<not> is_str partition_key_field_name
         then Inl (PartitionKeyException PartitionKeyFieldType)
         else (case cs_kwargs s ''auto_id'' of
                 Some a \<Rightarrow> if as_bool a = None then Inl (AutoIDException AutoIDType) else Inr ()
               | None \<Rightarrow> Inr ()))"

text \<open>
  The loop of \<open>_check_fields\<close>. Its state is the two running names (the hints at the
  start), the two references found so far, and the position \<open>i\<close> of the field at hand;
  it returns the fields with the flags the loop has set.
\<close>

record loop_state =
  ls_primary_field_name :: pyval
  ls_partition_key_field_name :: pyval
  ls_primary_field :: "nat option"
  ls_partition_key_field :: "nat option"

fun check_fields_loop ::
  "loop_state \<Rightarrow> nat \<Rightarrow> FieldSchema list \<Rightarrow> error + (FieldSchema list \<times> loop_state)" where
  "check_fields_loop st i [] = Inr ([], st)"
| "check_fields_loop st i (field0 # rest) =
     (let field1 = (if ls_primary_field_name st = PStr (name field0)
                    then field0\<lparr>is_primary := True\<rparr> else field0);
          field = (if ls_partition_key_field_name st = PStr (name field1)
                   then field1\<lparr>is_partition_key := True\<rparr> else field1)
      in if is_primary field \<and> ls_primary_field_name st \<noteq> PNone
            \<and> ls_primary_field_name st \<noteq> PStr (name field)
         then Inl (PrimaryKeyException (PrimaryKeyOnlyOne (ls_primary_field_name st) (name field)))
         else
           (let st1 = (if is_primary field
                       then st\<lparr>ls_primary_field := Some i,
                               ls_primary_field_name := PStr (name field)\<rparr>
                       else st)
            in if is_partition_key field \<and> ls_partition_key_field_name st1 \<noteq> PNone
                  \<and> ls_partition_key_field_name st1 \<noteq> PStr (name field)
               then Inl (PartitionKeyException
                           (PartitionKeyOnlyOne (ls_partition_key_field_name st1) (name field)))
               else
                 (let st2 = (if is_partition_key field
                             then st1\<lparr>ls_partition_key_field := Some i,
                                      ls_partition_key_field_name := PStr (name field)\<rparr>
                             else st1)
                  in case check_fields_loop st2 (Suc i) rest of
                       Inl e \<Rightarrow> Inl e
                     | Inr (rest', st') \<Rightarrow> Inr (field # rest', st'))))"

definition check_fields :: "CollectionSchema \<Rightarrow> error + CollectionSchema" where
  "check_fields s =
     (case check_fields_loop
             \<lparr> ls_primary_field_name = dict_get (cs_kwargs s) ''primary_field'' PNone,
               ls_partition_key_field_name = dict_get (cs_kwargs s) ''partition_key_field'' PNone,
               ls_primary_field = cs_primary_field s,
               ls_partition_key_field = cs_partition_key_field s \<rparr>
             0 (cs_fields s) of
        Inl e \<Rightarrow> Inl e
      | Inr (fs, st) \<Rightarrow>
          (let s1 = s\<lparr>cs_fields := fs, cs_primary_field := ls_primary_field st,
                      cs_partition_key_field := ls_partition_key_field st\<rparr>
           in case validate_primary_key (primary_field s1) of
                Inl e \<Rightarrow> Inl e
              | Inr u \<Rightarrow>
                  (case primary_field s1 of
                     None \<Rightarrow> Inl AttributeError
                   | Some pf \<Rightarrow>
                       (case validate_partition_key (ls_partition_key_field_name st)
                               (partition_key_field s1) (name pf) of
                          Inl e \<Rightarrow> Inl e
                        | Inr u \<Rightarrow>
                            (let auto_id_hint = dict_get (cs_kwargs s) ''auto_id'' (PBool False)
                             in if truthy auto_id_hint
                                then (case cs_primary_field s1 of
                                        Some i \<Rightarrow>
                                          Inr (s1\<lparr>cs_fields := (cs_fields s1)
                                                  [i := (cs_fields s1 ! i)\<lparr>auto_id := True\<rparr>]\<rparr>)
                                      | None \<Rightarrow> Inl AttributeError)
                                else Inr s1)))))"

text \<open>
  \<open>CollectionSchema.__init__\<close>. \<open>_check_kwargs\<close> runs before \<open>_check_fields\<close> (also in
  \<open>_check\<close>), so the \<open>auto_id\<close> hint that \<open>_check_fields\<close> copies onto the primary field
  is a \<open>bool\<close>, and a true one where it is copied.
\<close>

definition CollectionSchema_init ::
  "collab \<Rightarrow> FieldSchema list \<Rightarrow> string \<Rightarrow> (string \<rightharpoonup> pyval) \<Rightarrow> error + CollectionSchema" where
  "CollectionSchema_init E flds descr kw =
     (case deepcopy_fields E flds of
        Inl e \<Rightarrow> Inl e
      | Inr fs \<Rightarrow>
          (let s = \<lparr> cs_fields = fs, cs_description = descr, cs_kwargs = kw,
                     cs_enable_dynamic_field = dict_get kw ''enable_dynamic_field'' (PBool False),
                     cs_primary_field = None, cs_partition_key_field = None \<rparr>
           in case check_kwargs s of
                Inl e \<Rightarrow> Inl e
              | Inr u \<Rightarrow>
                  if truthy (dict_get kw ''check_fields'' (PBool True)) then check_fields s
                  else Inr s))"

text \<open>The property \<open>auto_id\<close> reads the primary field; on \<open>None\<close> the read fails.\<close>

definition CollectionSchema_auto_id :: "CollectionSchema \<Rightarrow> error + bool" where
  "CollectionSchema_auto_id s =
     (case primary_field s of None \<Rightarrow> Inl AttributeError | Some f \<Rightarrow> Inr (auto_id f))"

record CollectionDict =
  cd_auto_id :: bool
  cd_description :: string
  cd_fields :: "FieldDict list"
  cd_enable_dynamic_field :: "pyval option"

definition CollectionSchema_to_dict :: "CollectionSchema \<Rightarrow> error + CollectionDict" where
  "CollectionSchema_to_dict s =
     (case CollectionSchema_auto_id s of
        Inl e \<Rightarrow> Inl e
      | Inr a \<Rightarrow>
          Inr \<lparr> cd_auto_id = a, cd_description = cs_description s,
                cd_fields = map to_dict (cs_fields s),
                cd_enable_dynamic_field =
                  (if truthy (cs_enable_dynamic_field s)
                   then Some (cs_enable_dynamic_field s) else None) \<rparr>)"

text \<open>\<open>CollectionSchema.__eq__\<close> compares the two \<open>to_dict\<close> forms; a failing \<open>to_dict\<close> propagates.\<close>

definition CollectionSchema_eq :: "CollectionSchema \<Rightarrow> CollectionSchema \<Rightarrow> error + bool" where
  "CollectionSchema_eq s t =
     (case CollectionSchema_to_dict s of
        Inl e \<Rightarrow> Inl e
      | Inr a \<Rightarrow> (case CollectionSchema_to_dict t of Inl e \<Rightarrow> Inl e | Inr b \<Rightarrow> Inr (a = b)))"

fun construct_fields_from_dicts :: "collab \<Rightarrow> FieldDict list \<Rightarrow> error + FieldSchema list" where
  "construct_fields_from_dicts E [] = Inr []"
| "construct_fields_from_dicts E (field_raw # raws) =
     (case construct_from_dict E field_raw of
        Inl e \<Rightarrow> Inl e
      | Inr f \<Rightarrow>
          (case construct_fields_from_dicts E raws of
             Inl e \<Rightarrow> Inl e
           | Inr fs \<Rightarrow> Inr (f # fs)))"

definition CollectionSchema_construct_from_dict ::
  "collab \<Rightarrow> CollectionDict \<Rightarrow> error + CollectionSchema" where
  "CollectionSchema_construct_from_dict E raw =
     (case construct_fields_from_dicts E (cd_fields raw) of
        Inl e \<Rightarrow> Inl e
      | Inr fs \<Rightarrow>
          (let enable_dynamic_field =
                 (case cd_enable_dynamic_field raw of None \<Rightarrow> PBool False | Some v \<Rightarrow> v)
           in CollectionSchema_init E fs (cd_description raw)
                [''enable_dynamic_field'' \<mapsto> enable_dynamic_field]))"

section \<open>Payloads\<close>

text \<open>
  A \<open>pandas.DataFrame\<close> is its columns in order: label, numpy type and values. All
  columns of a frame hold \<open>len(df)\<close> values; labels may repeat.
\<close>

record column =
  col_name :: string
  col_dtype :: string
  col_values :: "pyval list"

type_synonym dataframe = "column list"

datatype payload = DataFrame dataframe | Py pyval

definition df_len :: "dataframe \<Rightarrow> nat" where
  "df_len df = (case df of [] \<Rightarrow> 0 | c # cs \<Rightarrow> length (col_values c))"

definition wf_dataframe :: "dataframe \<Rightarrow> bool" where
  "wf_dataframe df = list_all (\<lambda>c. length (col_values c) = df_len df) df"

text \<open>
  \<open>df.head(1).to_numpy()[0]\<close>: the first value of every column. A frame with a row has
  one in each column; the error is for lists of columns that are no frame.
\<close>

fun first_row :: "dataframe \<Rightarrow> error + pyval list" where
  "first_row [] = Inr []"
| "first_row (c # cs) =
     (case col_values c of
        [] \<Rightarrow> Inl IndexError
      | v # vs \<Rightarrow> (case first_row cs of Inl e \<Rightarrow> Inl e | Inr row \<Rightarrow> Inr (v # row)))"

text \<open>pandas' \<open>isnull\<close> on a cell, \<open>is_list_like\<close>, and Python's \<open>len(x)\<close> and \<open>x[0]\<close>.\<close>

fun is_null :: "pyval \<Rightarrow> bool" where
  "is_null PNone = True"
| "is_null (PScalar SNaN) = True"
| "is_null v = False"

fun is_list_like :: "pyval \<Rightarrow> bool" where
  "is_list_like (PList xs) = True"
| "is_list_like (PDict kvs) = True"
| "is_list_like v = False"

fun py_len :: "pyval \<Rightarrow> error + nat" where
  "py_len (PList xs) = Inr (length xs)"
| "py_len (PDict kvs) = Inr (length kvs)"
| "py_len (PScalar (SStr s)) = Inr (length s)"
| "py_len (PScalar (SBytes s)) = Inr (length s)"
| "py_len v = Inl TypeError"

definition is_key0 :: "pyval \<Rightarrow> bool" where
  "is_key0 k = (k = PInt 0 \<or> k = PBool False \<or> k = PScalar (SFloat 0))"

fun getitem0 :: "pyval \<Rightarrow> error + pyval" where
  "getitem0 (PList []) = Inl IndexError"
| "getitem0 (PList (x # xs)) = Inr x"
| "getitem0 (PDict kvs) =
     (case find (\<lambda>kv. is_key0 (fst kv)) kvs of None \<Rightarrow> Inl KeyError | Some kv \<Rightarrow> Inr (snd kv))"
| "getitem0 (PScalar (SStr [])) = Inl IndexError"
| "getitem0 (PScalar (SStr (c # cs))) = Inr (PStr [c])"
| "getitem0 (PScalar (SBytes [])) = Inl IndexError"
| "getitem0 (PScalar (SBytes (c # cs))) = Inr (PInt (int (of_char c)))"
| "getitem0 v = Inl TypeError"

section \<open>The data-shape classifier\<close>

fun isinstance_list :: "payload \<Rightarrow> bool" where
  "isinstance_list (Py (PList xs)) = True"
| "isinstance_list d = False"

fun isinstance_dict :: "payload \<Rightarrow> bool" where
  "isinstance_dict (Py (PDict kvs)) = True"
| "isinstance_dict d = False"

fun isinstance_DataFrame :: "payload \<Rightarrow> bool" where
  "isinstance_DataFrame (DataFrame df) = True"
| "isinstance_DataFrame d = False"

definition check_is_row_based :: "payload \<Rightarrow> error + bool" where
  "check_is_row_based data =
     (if \<not> (isinstance_DataFrame data \<or> isinstance_list data \<or> isinstance_dict data)
      then Inl (DataTypeNotSupportException DataShouldBeListOrDataFrameOrDict)
      else if isinstance_DataFrame data then Inr False
      else if isinstance_dict data then Inr True
      else (case data of
              Py (PList xs) \<Rightarrow>
                (case xs of
                   [] \<Rightarrow> Inr False
                 | x # rest \<Rightarrow> if isinstance_dict (Py x) then Inr True else Inr False)
            | _ \<Rightarrow> Inr False))"

section \<open>The reconciliation checker\<close>

fun check_dtypes_names :: "FieldSchema list \<Rightarrow> FieldSchema list \<Rightarrow> bool \<Rightarrow> error + unit" where
  "check_dtypes_names (x # xs) (y # ys) is_data_frame =
     (if dtype x \<noteq> dtype y
      then Inl (DataNotMatchException (DataTypeDoesntMatch (name y) (dtype y) (dtype x)))
      else if is_data_frame \<and> name x \<noteq> name y
      then Inl (DataNotMatchException (NameDoesntMatch (name y) (name x)))
      else check_dtypes_names xs ys is_data_frame)"
| "check_dtypes_names xs ys is_data_frame = Inr ()"

definition check_infer_fields_valid ::
  "FieldSchema list \<Rightarrow> FieldSchema list \<Rightarrow> bool \<Rightarrow> error + unit" where
  "check_infer_fields_valid infer_fields tmp_fields is_data_frame =
     (if length infer_fields \<noteq> length tmp_fields
      then (let i_name = map name infer_fields; t_name = map name tmp_fields
            in Inl (DataNotMatchException (FieldsDontMatch t_name i_name)))
      else check_dtypes_names infer_fields tmp_fields is_data_frame)"

section \<open>The field-inference engine\<close>

text \<open>
  \<open>prepare_fields_from_dataframe\<close>. The sampling loop visits the columns in order with
  the first row's values; a column whose mapped type is \<open>UNKNOWN\<close> gets the type
  inferred from its value, and a vector type stores \<open>dim\<close> under the column's label.
\<close>

type_synonym column_params = "string \<rightharpoonup> (string \<rightharpoonup> pyval)"

fun sample_columns ::
  "collab \<Rightarrow> string list \<Rightarrow> pyval list \<Rightarrow> DataType list \<Rightarrow> column_params
     \<Rightarrow> error + (DataType list \<times> column_params)" where
  "sample_columns E (col # cols) (v # vs) (dt # dts) column_params_map =
     (if dt = UNKNOWN
      then (let new_dtype = infer_dtype_bydata E v
            in if new_dtype \<in> {BINARY_VECTOR, FLOAT_VECTOR}
               then (case py_len v of
                       Inl e \<Rightarrow> Inl e
                     | Inr n \<Rightarrow>
                         (let vector_type_params =
                                (if new_dtype = BINARY_VECTOR
                                 then [''dim'' \<mapsto> PInt (int n * 8)]
                                 else [''dim'' \<mapsto> PInt (int n)])
                          in case sample_columns E cols vs dts
                                    (column_params_map(col \<mapsto> vector_type_params)) of
                               Inl e \<Rightarrow> Inl e
                             | Inr (dts', m) \<Rightarrow> Inr (new_dtype # dts', m)))
               else (case sample_columns E cols vs dts column_params_map of
                       Inl e \<Rightarrow> Inl e
                     | Inr (dts', m) \<Rightarrow> Inr (new_dtype # dts', m)))
      else (case sample_columns E cols vs dts column_params_map of
              Inl e \<Rightarrow> Inl e
            | Inr (dts', m) \<Rightarrow> Inr (dt # dts', m)))"
| "sample_columns E cols vs dts column_params_map = Inr ([], column_params_map)"

definition prepare_fields_from_dataframe ::
  "collab \<Rightarrow> dataframe \<Rightarrow> error + (string list \<times> DataType list \<times> column_params)" where
  "prepare_fields_from_dataframe E df =
     (let d_types = map col_dtype df;
          data_types = map (map_numpy_dtype_to_datatype E) d_types;
          col_names = map col_name df
      in case (if UNKNOWN \<in> set data_types
               then (if df_len df = 0
                     then Inl (CannotInferSchemaException DataFrameInvalid)
                     else (case first_row df of
                             Inl e \<Rightarrow> Inl e
                           | Inr values \<Rightarrow>
                               sample_columns E col_names values data_types Map.empty))
               else Inr (data_types, Map.empty)) of
           Inl e \<Rightarrow> Inl e
         | Inr (data_types', column_params_map) \<Rightarrow>
             if UNKNOWN \<in> set data_types'
             then Inl (CannotInferSchemaException DataFrameInvalid)
             else Inr (col_names, data_types', column_params_map))"

text \<open>
  Removing the auto-id primary field from the copied list. In the list path the loop
  iterates over the list it pops from: the iterator keeps its index while \<open>pop\<close> moves
  the later elements one place down, so the element that follows a removed one is not
  visited.
\<close>

fun pop_auto_id :: "FieldSchema list \<Rightarrow> FieldSchema list" where
  "pop_auto_id [] = []"
| "pop_auto_id [field] = (if is_primary field \<and> auto_id field then [] else [field])"
| "pop_auto_id (field # nxt # rest) =
     (if is_primary field \<and> auto_id field then nxt # pop_auto_id rest
      else field # pop_auto_id (nxt # rest))"

text \<open>
  In the frame path the loop iterates over \<open>schema.fields\<close> and pops position \<open>i\<close> of
  the copy; \<open>list.pop\<close> raises \<open>IndexError\<close> past the end.
\<close>

fun pop_positions :: "nat \<Rightarrow> FieldSchema list \<Rightarrow> FieldSchema list \<Rightarrow> error + FieldSchema list" where
  "pop_positions i [] tmp_fields = Inr tmp_fields"
| "pop_positions i (field # rest) tmp_fields =
     (if is_primary field \<and> auto_id field
      then (if i < length tmp_fields
            then pop_positions (Suc i) rest (take i tmp_fields @ drop (Suc i) tmp_fields)
            else Inl IndexError)
      else pop_positions (Suc i) rest tmp_fields)"

text \<open>\<open>data_types[col_names.index(name)]\<close>: \<open>index\<close> finds the first position.\<close>

fun dtype_at :: "string list \<Rightarrow> DataType list \<Rightarrow> string \<Rightarrow> error + DataType" where
  "dtype_at [] dts n = Inl ValueError"
| "dtype_at (c # cs) [] n = (if c = n then Inl IndexError else dtype_at cs [] n)"
| "dtype_at (c # cs) (dt # dts) n = (if c = n then Inr dt else dtype_at cs dts n)"

definition params_get :: "column_params \<Rightarrow> string \<Rightarrow> (string \<rightharpoonup> pyval)" where
  "params_get column_params_map n =
     (case column_params_map n of None \<Rightarrow> Map.empty | Some tp \<Rightarrow> tp)"

fun infer_schema_fields ::
  "collab \<Rightarrow> column_params \<Rightarrow> FieldSchema list \<Rightarrow> string list \<Rightarrow> DataType list
     \<Rightarrow> FieldSchema list \<Rightarrow> error + (string list \<times> DataType list \<times> FieldSchema list)" where
  "infer_schema_fields E pm [] col_names data_types infer_fields =
     Inr (col_names, data_types, infer_fields)"
| "infer_schema_fields E pm (field # rest) col_names data_types infer_fields =
     (if name field \<notin> set col_names
      then (case FieldSchema_init E (name field) (Member (dtype field)) [] Map.empty of
              Inl e \<Rightarrow> Inl e
            | Inr field_schema \<Rightarrow>
                infer_schema_fields E pm rest (col_names @ [name field])
                  (data_types @ [dtype field]) (infer_fields @ [field_schema]))
      else (case dtype_at col_names data_types (name field) of
              Inl e \<Rightarrow> Inl e
            | Inr dt \<Rightarrow>
                (case FieldSchema_init E (name field) (Member dt) []
                        (params_get pm (name field)) of
                   Inl e \<Rightarrow> Inl e
                 | Inr field_schema \<Rightarrow>
                     infer_schema_fields E pm rest col_names data_types
                       (infer_fields @ [field_schema]))))"

fun infer_other_columns ::
  "collab \<Rightarrow> column_params \<Rightarrow> string list \<Rightarrow> (string \<times> DataType) list
     \<Rightarrow> error + FieldSchema list" where
  "infer_other_columns E pm infer_name [] = Inr []"
| "infer_other_columns E pm infer_name ((n, dt) # rest) =
     (if n \<notin> set infer_name
      then (case FieldSchema_init E n (Member dt) [] (params_get pm n) of
              Inl e \<Rightarrow> Inl e
            | Inr field_schema \<Rightarrow>
                (case infer_other_columns E pm infer_name rest of
                   Inl e \<Rightarrow> Inl e
                 | Inr fs \<Rightarrow> Inr (field_schema # fs)))
      else infer_other_columns E pm infer_name rest)"

definition parse_fields_from_dataframe ::
  "collab \<Rightarrow> CollectionSchema \<Rightarrow> dataframe
     \<Rightarrow> error + (FieldSchema list \<times> FieldSchema list \<times> bool)" where
  "parse_fields_from_dataframe E schema df =
     (case prepare_fields_from_dataframe E df of
        Inl e \<Rightarrow> Inl e
      | Inr (col_names, data_types, column_params_map) \<Rightarrow>
          (case deepcopy_fields E (cs_fields schema) of
             Inl e \<Rightarrow> Inl e
           | Inr copied \<Rightarrow>
               (case pop_positions 0 (cs_fields schema) copied of
                  Inl e \<Rightarrow> Inl e
                | Inr tmp_fields \<Rightarrow>
                    (case infer_schema_fields E column_params_map tmp_fields
                            col_names data_types [] of
                       Inl e \<Rightarrow> Inl e
                     | Inr (col_names', data_types', infer_fields) \<Rightarrow>
                         (case infer_other_columns E column_params_map
                                 (map name infer_fields) (zip col_names' data_types') of
                            Inl e \<Rightarrow> Inl e
                          | Inr others \<Rightarrow> Inr (infer_fields @ others, tmp_fields, True))))))"

text \<open>
  The list path of \<open>parse_fields_from_data\<close>. \<open>infer_one\<close> is the body of the loop over
  the expected fields: both \<open>IndexError\<close> handlers and the \<open>None\<close> case fall back to the
  schema field's type.
\<close>

definition infer_one :: "collab \<Rightarrow> pyval list \<Rightarrow> nat \<Rightarrow> FieldSchema \<Rightarrow> error + FieldSchema" where
  "infer_one E data i field =
     (if length data \<le> i then FieldSchema_init E [] (Member (dtype field)) [] Map.empty
      else (let d = data ! i
            in if d = PNone then FieldSchema_init E [] (Member (dtype field)) [] Map.empty
               else if \<not> is_list_like d
               then Inl (DataTypeNotSupportException DataShouldBeListOfList)
               else (case getitem0 d of
                       Inl IndexError \<Rightarrow>
                         FieldSchema_init E [] (Member (dtype field)) [] Map.empty
                     | Inl e \<Rightarrow> Inl e
                     | Inr elem \<Rightarrow>
                         FieldSchema_init E [] (Member (infer_dtype_bydata E elem)) []
                           Map.empty)))"

fun infer_expected ::
  "collab \<Rightarrow> pyval list \<Rightarrow> nat \<Rightarrow> FieldSchema list \<Rightarrow> error + FieldSchema list" where
  "infer_expected E data i [] = Inr []"
| "infer_expected E data i (field # rest) =
     (case infer_one E data i field of
        Inl e \<Rightarrow> Inl e
      | Inr f \<Rightarrow>
          (case infer_expected E data (Suc i) rest of
             Inl e \<Rightarrow> Inl e
           | Inr fs \<Rightarrow> Inr (f # fs)))"

text \<open>The \<open>while\<close> loop over the columns past the expected fields: \<open>data[index][0]\<close>.\<close>

fun infer_extra :: "collab \<Rightarrow> pyval list \<Rightarrow> error + FieldSchema list" where
  "infer_extra E [] = Inr []"
| "infer_extra E (d # ds) =
     (case getitem0 d of
        Inl e \<Rightarrow> Inl e
      | Inr elem \<Rightarrow>
          (case FieldSchema_init E [] (Member (infer_dtype_bydata E elem)) [] Map.empty of
             Inl e \<Rightarrow> Inl e
           | Inr f \<Rightarrow>
               (case infer_extra E ds of Inl e \<Rightarrow> Inl e | Inr fs \<Rightarrow> Inr (f # fs))))"

definition parse_fields_from_data ::
  "collab \<Rightarrow> CollectionSchema \<Rightarrow> payload
     \<Rightarrow> error + (FieldSchema list \<times> FieldSchema list \<times> bool)" where
  "parse_fields_from_data E schema data =
     (if \<not> (isinstance_DataFrame data \<or> isinstance_list data)
      then Inl (DataTypeNotSupportException DataShouldBeListOrDataFrame)
      else (case data of
              DataFrame df \<Rightarrow> parse_fields_from_dataframe E schema df
            | Py (PList cols) \<Rightarrow>
                (case deepcopy_fields E (cs_fields schema) of
                   Inl e \<Rightarrow> Inl e
                 | Inr copied \<Rightarrow>
                     (let tmp_fields = pop_auto_id copied
                      in case infer_expected E cols 0 tmp_fields of
                           Inl e \<Rightarrow> Inl e
                         | Inr infer_fields \<Rightarrow>
                             (case infer_extra E (drop (length tmp_fields) cols) of
                                Inl e \<Rightarrow> Inl e
                              | Inr extra \<Rightarrow> Inr (infer_fields @ extra, tmp_fields, False))))
            | _ \<Rightarrow> Inl (DataTypeNotSupportException DataShouldBeListOrDataFrame)))"

section \<open>The insert-time check\<close>

text \<open>
  \<open>data[name].isnull().all()\<close> is one truth value when one column carries the label.
  With a repeated label the selection is a frame, \<open>all()\<close> gives one value per column,
  and \<open>not\<close> on that series raises \<open>ValueError\<close>. \<open>drop(name, axis=1)\<close> removes every
  column of that label.
\<close>

definition isnull_all :: "dataframe \<Rightarrow> string \<Rightarrow> error + bool" where
  "isnull_all df n =
     (case filter (\<lambda>c. col_name c = n) df of
        [] \<Rightarrow> Inl KeyError
      | [c] \<Rightarrow> Inr (list_all is_null (col_values c))
      | c # c' # cs \<Rightarrow> Inl ValueError)"

definition drop_column :: "dataframe \<Rightarrow> string \<Rightarrow> dataframe" where
  "drop_column df n = filter (\<lambda>c. col_name c \<noteq> n) df"

definition drop_auto_id_column :: "CollectionSchema \<Rightarrow> payload \<Rightarrow> error + payload" where
  "drop_auto_id_column schema data =
     (case CollectionSchema_auto_id schema of
        Inl e \<Rightarrow> Inl e
      | Inr a \<Rightarrow>
          (case (a, data, primary_field schema) of
             (True, DataFrame df, Some pf) \<Rightarrow>
               if name pf \<in> set (map col_name df)
               then (case isnull_all df (name pf) of
                       Inl e \<Rightarrow> Inl e
                     | Inr all_null \<Rightarrow>
                         if \<not> all_null
                         then Inl (DataNotMatchException (ExpectNoDataForAutoID (name pf)))
                         else Inr (DataFrame (drop_column df (name pf))))
               else Inr data
           | _ \<Rightarrow> Inr data))"

definition check_insert_schema :: "collab \<Rightarrow> CollectionSchema option \<Rightarrow> payload \<Rightarrow> error + unit" where
  "check_insert_schema E schema data =
     (case schema of
        None \<Rightarrow> Inl (SchemaNotReadyException SchemaShouldntBeNone)
      | Some s \<Rightarrow>
          (case drop_auto_id_column s data of
             Inl e \<Rightarrow> Inl e
           | Inr data' \<Rightarrow>
               (case parse_fields_from_data E s data' of
                  Inl e \<Rightarrow> Inl e
                | Inr (infer_fields, tmp_fields, is_data_frame) \<Rightarrow>
                    check_infer_fields_valid infer_fields tmp_fields is_data_frame)))"

section \<open>Invariants and sample inputs\<close>

text \<open>
  What every constructed \<open>FieldSchema\<close> satisfies, and what the flag assignments of
  \<open>_check_fields\<close> keep: \<open>auto_id\<close> only on a primary field, a type other than
  \<open>UNKNOWN\<close>, a default value with a variant set, and type parameters only for the
  vector types and \<open>VARCHAR\<close>, under keys of \<open>COMMON_TYPE_PARAMS\<close>.
\<close>

definition field_ok :: "collab \<Rightarrow> FieldSchema \<Rightarrow> bool" where
  "field_ok E f =
     ((auto_id f \<longrightarrow> is_primary f) \<and> dtype f \<noteq> UNKNOWN
      \<and> (\<forall>vf. default_value f = Some vf \<longrightarrow> WhichOneof vf \<noteq> None)
      \<and> dom (type_params f) \<subseteq> set (COMMON_TYPE_PARAMS E)
      \<and> (dtype f \<notin> {BINARY_VECTOR, FLOAT_VECTOR, VARCHAR} \<longrightarrow> type_params f = Map.empty))"

text \<open>
  The keywords \<open>construct_from_dict\<close> sets itself. A type parameter of one of these
  names would be overwritten on the way back from the mapping.
\<close>

definition reserved_keywords :: "string set" where
  "reserved_keywords =
     {''is_primary'', ''auto_id'', ''is_partition_key'', ''default_value'', ''is_dynamic''}"

definition type_params_apart :: "collab \<Rightarrow> bool" where
  "type_params_apart E = (set (COMMON_TYPE_PARAMS E) \<inter> reserved_keywords = {})"

text \<open>
  The field a round trip through the mapping yields: the keyword dictionary is the one
  \<open>construct_from_dict\<close> builds, and a false \<open>is_dynamic\<close> of any kind comes back as
  \<open>False\<close>.
\<close>

definition reloaded :: "FieldSchema \<Rightarrow> FieldSchema" where
  "reloaded f =
     f\<lparr>kwargs := from_dict_kwargs (to_dict f),
       is_dynamic := (if truthy (is_dynamic f) then is_dynamic f else PBool False)\<rparr>"

text \<open>
  The loop of \<open>_check_fields\<close>, taken apart for the proofs: the state one round leaves
  behind, the state after a whole list, and the lists whose flags the loop would leave
  as they are (every field agrees with the running names).
\<close>

definition step_state :: "loop_state \<Rightarrow> nat \<Rightarrow> FieldSchema \<Rightarrow> loop_state" where
  "step_state st i f =
     (let st1 = (if is_primary f
                 then st\<lparr>ls_primary_field := Some i, ls_primary_field_name := PStr (name f)\<rparr>
                 else st)
      in if is_partition_key f
         then st1\<lparr>ls_partition_key_field := Some i,
                  ls_partition_key_field_name := PStr (name f)\<rparr>
         else st1)"

fun run_state :: "loop_state \<Rightarrow> nat \<Rightarrow> FieldSchema list \<Rightarrow> loop_state" where
  "run_state st i [] = st"
| "run_state st i (f # fs) = run_state (step_state st i f) (Suc i) fs"

definition settled :: "loop_state \<Rightarrow> FieldSchema \<Rightarrow> bool" where
  "settled st f =
     ((ls_primary_field_name st = PStr (name f) \<longrightarrow> is_primary f)
      \<and> (ls_partition_key_field_name st = PStr (name f) \<longrightarrow> is_partition_key f)
      \<and> (is_primary f \<longrightarrow>
            ls_primary_field_name st = PNone \<or> ls_primary_field_name st = PStr (name f))
      \<and> (is_partition_key f \<longrightarrow>
            ls_partition_key_field_name st = PNone
            \<or> ls_partition_key_field_name st = PStr (name f)))"

fun stable :: "loop_state \<Rightarrow> nat \<Rightarrow> FieldSchema list \<Rightarrow> bool" where
  "stable st i [] = True"
| "stable st i (f # fs) = (settled st f \<and> stable (step_state st i f) (Suc i) fs)"

text \<open>One round of the loop, as the flags it sets and the state it leaves.\<close>

definition flagged :: "loop_state \<Rightarrow> FieldSchema \<Rightarrow> FieldSchema" where
  "flagged st f =
     f\<lparr>is_primary := is_primary f \<or> ls_primary_field_name st = PStr (name f),
       is_partition_key := is_partition_key f \<or> ls_partition_key_field_name st = PStr (name f)\<rparr>"

definition flags_added :: "FieldSchema \<Rightarrow> FieldSchema \<Rightarrow> bool" where
  "flags_added f g =
     (g = f\<lparr>is_primary := is_primary g, is_partition_key := is_partition_key g\<rparr>
      \<and> (is_primary f \<longrightarrow> is_primary g) \<and> (is_partition_key f \<longrightarrow> is_partition_key g))"

text \<open>Stability and the state reached read the name and the two flags of a field only.\<close>

definition sig :: "FieldSchema \<Rightarrow> string \<times> bool \<times> bool" where
  "sig f = (name f, is_primary f, is_partition_key f)"

text \<open>Starting from fewer hints keeps a settled list settled.\<close>

definition weaker :: "loop_state \<Rightarrow> loop_state \<Rightarrow> bool" where
  "weaker st2 st =
     ((ls_primary_field_name st2 = PNone \<or> ls_primary_field_name st2 = ls_primary_field_name st)
      \<and> (ls_partition_key_field_name st2 = PNone
           \<or> ls_partition_key_field_name st2 = ls_partition_key_field_name st))"

text \<open>
  The keyword hints that pass \<open>_check_kwargs\<close>; a schema that declares no partition key;
  and a field with the flags the hints of the constructor put on the primary field.
\<close>

definition hints_well_typed :: "(string \<rightharpoonup> pyval) \<Rightarrow> bool" where
  "hints_well_typed kw =
     ((dict_get kw ''primary_field'' PNone = PNone \<or> is_str (dict_get kw ''primary_field'' PNone))
      \<and> (dict_get kw ''partition_key_field'' PNone = PNone
           \<or> is_str (dict_get kw ''partition_key_field'' PNone))
      \<and> (case kw ''auto_id'' of None \<Rightarrow> True | Some a \<Rightarrow> as_bool a \<noteq> None))"

definition no_partition_key :: "FieldSchema list \<Rightarrow> (string \<rightharpoonup> pyval) \<Rightarrow> bool" where
  "no_partition_key flds kw =
     (list_all (\<lambda>f. \<not> is_partition_key f) flds
      \<and> dict_get kw ''partition_key_field'' PNone = PNone)"

definition hinted :: "(string \<rightharpoonup> pyval) \<Rightarrow> FieldSchema \<Rightarrow> FieldSchema" where
  "hinted kw f =
     f\<lparr>is_partition_key :=
          is_partition_key f \<or> dict_get kw ''partition_key_field'' PNone = PStr (name f),
       auto_id := auto_id f \<or> truthy (dict_get kw ''auto_id'' (PBool False))\<rparr>"




text \<open>
  For the frame path: the type a column's numpy type maps to; the type of a column after
  sampling the first row; when the preparation cannot infer a schema (some mapped type is
  \<open>UNKNOWN\<close> and the frame is empty, or a sampled column stays \<open>UNKNOWN\<close>); and what the
  proofs need of \<open>infer_dtype_bydata\<close>: a value it takes for a vector has a length.
\<close>

definition mapped_dtype :: "collab \<Rightarrow> column \<Rightarrow> DataType" where
  "mapped_dtype E c = map_numpy_dtype_to_datatype E (col_dtype c)"

definition sampled_dtype :: "collab \<Rightarrow> column \<Rightarrow> DataType" where
  "sampled_dtype E c =
     (if mapped_dtype E c = UNKNOWN then infer_dtype_bydata E (col_values c ! 0)
      else mapped_dtype E c)"

definition cannot_infer :: "collab \<Rightarrow> dataframe \<Rightarrow> bool" where
  "cannot_infer E df =
     (UNKNOWN \<in> set (map (mapped_dtype E) df)
      \<and> (df_len df = 0
           \<or> (\<exists>c\<in>set df. mapped_dtype E c = UNKNOWN
                  \<and> infer_dtype_bydata E (col_values c ! 0) = UNKNOWN)))"

definition sized_vectors :: "collab \<Rightarrow> bool" where
  "sized_vectors E =
     (\<forall>v. infer_dtype_bydata E v \<in> {BINARY_VECTOR, FLOAT_VECTOR} \<longrightarrow> (\<exists>n. py_len v = Inr n))"

text \<open>A column of the given label holds a value that is not null.\<close>

definition holds_data :: "dataframe \<Rightarrow> string \<Rightarrow> bool" where
  "holds_data df n = (\<exists>c\<in>set df. col_name c = n \<and> (\<exists>v\<in>set (col_values c). \<not> is_null v))"

text \<open>One instance of the collaborators, to run the model on concrete inputs.\<close>

fun example_infer_scalar :: "pyscalar \<Rightarrow> DataType" where
  "example_infer_scalar (SBool b) = BOOL"
| "example_infer_scalar (SInt i) = INT64"
| "example_infer_scalar (SFloat r) = DOUBLE"
| "example_infer_scalar SNaN = DOUBLE"
| "example_infer_scalar (SStr s) = VARCHAR"
| "example_infer_scalar (SBytes s) = UNKNOWN"

fun example_infer :: "pyval \<Rightarrow> DataType" where
  "example_infer (PScalar (SBytes s)) = BINARY_VECTOR"
| "example_infer (PScalar s) = example_infer_scalar s"
| "example_infer (PList (PScalar (SFloat r) # xs)) = FLOAT_VECTOR"
| "example_infer v = UNKNOWN"

definition example_map_numpy :: "string \<Rightarrow> DataType" where
  "example_map_numpy t =
     (if t = ''int64'' then INT64 else if t = ''float64'' then DOUBLE
      else if t = ''bool'' then BOOL else UNKNOWN)"

definition example_collab :: collab where
  "example_collab =
     \<lparr> COMMON_TYPE_PARAMS = [''dim'', ''max_length''],
       infer_dtype_by_scaladata = example_infer_scalar,
       infer_dtype_bydata = example_infer,
       map_numpy_dtype_to_datatype = example_map_numpy \<rparr>"

text \<open>The object \<open>FieldSchema(nm, dt)\<close> builds when \<open>dt\<close> is not \<open>UNKNOWN\<close>.\<close>

definition plain_field :: "string \<Rightarrow> DataType \<Rightarrow> FieldSchema" where
  "plain_field nm dt =
     \<lparr> name = nm, dtype = dt, description = [], type_params = Map.empty, kwargs = Map.empty,
       is_primary = False, is_dynamic = PBool False, auto_id = False,
       is_partition_key = False, default_value = None \<rparr>"

text \<open>
  Sample objects: \<open>FieldSchema("vec", FLOAT_VECTOR, dim=8)\<close>,
  \<open>FieldSchema("id", INT64, is_primary=True, auto_id=True)\<close>, the schema built from the
  two, and \<open>FieldSchema("pk", INT64, is_primary=True, is_partition_key=True)\<close>.
\<close>

definition example_vec :: FieldSchema where
  "example_vec = (plain_field ''vec'' FLOAT_VECTOR)
       \<lparr>type_params := [''dim'' \<mapsto> PInt 8], kwargs := [''dim'' \<mapsto> PInt 8]\<rparr>"

definition example_id :: FieldSchema where
  "example_id = (plain_field ''id'' INT64)
       \<lparr>is_primary := True, auto_id := True,
        kwargs := [''is_primary'' \<mapsto> PBool True, ''auto_id'' \<mapsto> PBool True]\<rparr>"

definition example_schema :: CollectionSchema where
  "example_schema =
     \<lparr> cs_fields = [reloaded example_id, reloaded example_vec], cs_description = [],
       cs_kwargs = Map.empty, cs_enable_dynamic_field = PBool False,
       cs_primary_field = Some 0, cs_partition_key_field = None \<rparr>"

definition example_key :: FieldSchema where
  "example_key = (plain_field ''pk'' INT64)
       \<lparr>is_primary := True, is_partition_key := True,
        kwargs := [''is_primary'' \<mapsto> PBool True, ''is_partition_key'' \<mapsto> PBool True]\<rparr>"

text \<open>
  Two fields flagged as partition key under different names, and a second primary key.
\<close>

definition example_part_a :: FieldSchema where
  "example_part_a = (plain_field ''a'' INT64)
       \<lparr>is_partition_key := True, kwargs := [''is_partition_key'' \<mapsto> PBool True]\<rparr>"

definition example_part_b :: FieldSchema where
  "example_part_b = (plain_field ''b'' INT64)
       \<lparr>is_partition_key := True, kwargs := [''is_partition_key'' \<mapsto> PBool True]\<rparr>"

definition example_other_key :: FieldSchema where
  "example_other_key = (plain_field ''k'' VARCHAR)
       \<lparr>is_primary := True, kwargs := [''is_primary'' \<mapsto> PBool True]\<rparr>"

text \<open>
  A frame with an \<open>int64\<close> column and two \<open>object\<close> columns, of float lists and of byte
  strings, and an empty frame with one \<open>object\<close> column.
\<close>

definition example_frame :: dataframe where
  "example_frame =
     [\<lparr> col_name = ''id'', col_dtype = ''int64'', col_values = [PInt 1, PInt 2] \<rparr>,
      \<lparr> col_name = ''vec'', col_dtype = ''object'',
        col_values = [PList [PScalar (SFloat 1), PScalar (SFloat 2)],
                      PList [PScalar (SFloat 3), PScalar (SFloat 4)]] \<rparr>,
      \<lparr> col_name = ''bin'', col_dtype = ''object'',
        col_values = [PScalar (SBytes ''ab''), PScalar (SBytes ''cd'')] \<rparr>]"

definition example_empty_frame :: dataframe where
  "example_empty_frame = [\<lparr> col_name = ''vec'', col_dtype = ''object'', col_values = [] \<rparr>]"

text \<open>A frame whose \<open>id\<close> column holds nulls only.\<close>

definition example_null_id_frame :: dataframe where
  "example_null_id_frame =
     [\<lparr> col_name = ''id'', col_dtype = ''object'', col_values = [PNone, PScalar SNaN] \<rparr>,
      \<lparr> col_name = ''vec'', col_dtype = ''object'',
        col_values = [PList [PScalar (SFloat 1), PScalar (SFloat 2)],
                      PList [PScalar (SFloat 3), PScalar (SFloat 4)]] \<rparr>]"

section \<open>Properties\<close>

subsection \<open>The round trip of one field\<close>

lemma parse_type_params_restrict:
  "parse_type_params E dt kw =
     (if dt \<in> {BINARY_VECTOR, FLOAT_VECTOR, VARCHAR}
      then kw |` set (COMMON_TYPE_PARAMS E) else Map.empty)"
proof -
  have "foldl (\<lambda>tp k. case kw k of None \<Rightarrow> tp | Some v \<Rightarrow> tp(k \<mapsto> v)) m cps
        = m ++ (kw |` set cps)" for m cps
  proof (induction cps arbitrary: m)
    case Nil
    then show ?case by simp
  next
    case (Cons k cps)
    show ?case
      apply (simp add: Cons.IH)
      apply (rule ext)
      apply (auto simp: map_add_def restrict_map_def split: option.splits)
      done
  qed
  from this[of Map.empty] show ?thesis
    by (auto simp: parse_type_params_def restrict_map_def fun_eq_iff domIff)
qed

lemma infer_default_value_set:
  "infer_default_value_bydata E v = Inr (Some vf) \<Longrightarrow> WhichOneof vf \<noteq> None"
  by (cases "(E, v)" rule: infer_default_value_bydata.cases)
     (auto simp: Let_def split: if_splits)

lemma init_default_value_set:
  "init_default_value E kw = Inr (Some vf) \<Longrightarrow> WhichOneof vf \<noteq> None"
proof (cases "dict_get kw ''default_value'' PNone")
  case (PValueField x)
  then show "init_default_value E kw = Inr (Some vf) \<Longrightarrow> WhichOneof vf \<noteq> None"
    by (auto simp: init_default_value_def split: if_splits)
qed (auto simp: init_default_value_def simp del: infer_default_value_bydata.simps
      dest: infer_default_value_set)

lemma FieldSchema_init_field_ok:
  assumes "FieldSchema_init E nm dt descr kw = Inr f"
  shows "field_ok E f"
proof -
  from assms obtain d ip aid ipk dv where
    d: "dt = Member d" "d \<noteq> UNKNOWN"
    and aid: "check_auto_id kw ip = Inr aid"
    and dv: "init_default_value E kw = Inr dv"
    and f: "f = \<lparr> name = nm, dtype = d, description = descr,
                  type_params = parse_type_params E d kw,
                  kwargs = kw, is_primary = ip,
                  is_dynamic = dict_get kw ''is_dynamic'' (PBool False),
                  auto_id = aid, is_partition_key = ipk,
                  default_value = dv \<rparr>"
    by (auto simp: FieldSchema_init_def split: dtype_arg.splits if_splits option.splits sum.splits)
  from aid have "aid \<longrightarrow> ip"
    by (auto simp: check_auto_id_def split: option.splits if_splits)
  moreover have "\<forall>vf. dv = Some vf \<longrightarrow> WhichOneof vf \<noteq> None"
    using dv init_default_value_set by blast
  moreover have "dom (parse_type_params E d kw) \<subseteq> set (COMMON_TYPE_PARAMS E)"
    by (auto simp: parse_type_params_restrict restrict_map_def split: if_splits)
  moreover have "d \<notin> {BINARY_VECTOR, FLOAT_VECTOR, VARCHAR} \<longrightarrow> parse_type_params E d kw = Map.empty"
    by (simp add: parse_type_params_restrict)
  ultimately show ?thesis using d f by (simp add: field_ok_def)
qed

lemma from_dict_kwargs_to_dict:
  "from_dict_kwargs (to_dict f) ''is_primary'' = Some (PBool (is_primary f))"
  "from_dict_kwargs (to_dict f) ''auto_id'' = (if is_primary f then Some (PBool (auto_id f)) else 
      (if dom (type_params f) \<noteq> {} then type_params f ''auto_id'' else None))"
  "from_dict_kwargs (to_dict f) ''is_partition_key'' = Some (PBool (is_partition_key f))"
  "from_dict_kwargs (to_dict f) ''default_value'' = Some (case default_value f of None \<Rightarrow> PNone
       | Some vf \<Rightarrow> if WhichOneof vf = None then PNone else PValueField vf)"
  "from_dict_kwargs (to_dict f) ''is_dynamic'' = Some (if truthy (is_dynamic f) then is_dynamic f else PBool False)"
  by (auto simp: from_dict_kwargs_def to_dict_def Let_def split: option.splits)

lemma from_dict_kwargs_other:
  "k \<notin> reserved_keywords \<Longrightarrow> from_dict_kwargs (to_dict f) k = type_params f k"
  by (auto simp: from_dict_kwargs_def to_dict_def Let_def reserved_keywords_def domIff split: option.splits)

lemma roundtrip:
  assumes ap: "type_params_apart E" and ok: "field_ok E f"
  shows "construct_from_dict E (to_dict f) = Inr (reloaded f)"
proof -
  let ?kw = "from_dict_kwargs (to_dict f)"
  have tp_none: "type_params f ''auto_id'' = None"
    using ap ok by (auto simp: type_params_apart_def field_ok_def reserved_keywords_def domIff)
  have a: "check_auto_id ?kw (is_primary f) = Inr (auto_id f)"
    using ok tp_none
    by (auto simp: check_auto_id_def from_dict_kwargs_to_dict field_ok_def)
  have dv: "init_default_value E ?kw = Inr (default_value f)"
    using ok
    by (auto simp: init_default_value_def dict_get_def from_dict_kwargs_to_dict field_ok_def
        split: option.splits)
  have "?kw |` set (COMMON_TYPE_PARAMS E) = type_params f"
  proof (rule ext)
    fix k
    show "(?kw |` set (COMMON_TYPE_PARAMS E)) k = type_params f k"
    proof (cases "k \<in> set (COMMON_TYPE_PARAMS E)")
      case True
      then have "k \<notin> reserved_keywords" using ap by (auto simp: type_params_apart_def)
      then show ?thesis using True by (simp add: from_dict_kwargs_other)
    next
      case False
      then have "type_params f k = None" using ok by (auto simp: field_ok_def domIff)
      then show ?thesis using False by simp
    qed
  qed
  then have tp: "parse_type_params E (dtype f) ?kw = type_params f"
    using ok by (auto simp: parse_type_params_restrict field_ok_def)
  have u: "dtype f \<noteq> UNKNOWN" using ok by (simp add: field_ok_def)
  have sel: "d_name (to_dict f) = name f" "d_type (to_dict f) = dtype f"
    "d_description (to_dict f) = description f"
    by (simp_all add: to_dict_def)
  have "construct_from_dict E (to_dict f) =
          Inr \<lparr> name = name f, dtype = dtype f, description = description f,
                type_params = type_params f, kwargs = ?kw, is_primary = is_primary f,
                is_dynamic = (if truthy (is_dynamic f) then is_dynamic f else PBool False),
                auto_id = auto_id f, is_partition_key = is_partition_key f,
                default_value = default_value f \<rparr>"
    using u
    by (simp add: construct_from_dict_def FieldSchema_init_def dict_get_def sel
        from_dict_kwargs_to_dict a dv tp)
  then show ?thesis by (cases f) (simp add: reloaded_def)
qed

lemma to_dict_reloaded: "to_dict (reloaded f) = to_dict f"
  by (simp add: reloaded_def to_dict_def)

lemma field_ok_reloaded: "field_ok E (reloaded f) = field_ok E f"
  by (simp add: reloaded_def field_ok_def)

subsection \<open>The loop of \<open>_check_fields\<close>\<close>

lemma step_names [simp]:
  "ls_primary_field_name (step_state st i f) = (if is_primary f then PStr (name f) else ls_primary_field_name st)"
  "ls_partition_key_field_name (step_state st i f) = (if is_partition_key f then PStr (name f) else ls_partition_key_field_name st)"
  "ls_primary_field (step_state st i f) = (if is_primary f then Some i else ls_primary_field st)"
  "ls_partition_key_field (step_state st i f) = (if is_partition_key f then Some i else ls_partition_key_field st)"
  by (simp_all add: step_state_def Let_def)

lemma loop_Cons:
  "check_fields_loop st i (f # fs) =
     (let g = flagged st f in
      if is_primary g \<and> ls_primary_field_name st \<noteq> PNone \<and> ls_primary_field_name st \<noteq> PStr (name f)
      then Inl (PrimaryKeyException (PrimaryKeyOnlyOne (ls_primary_field_name st) (name f)))
      else if is_partition_key g \<and> ls_partition_key_field_name st \<noteq> PNone
              \<and> ls_partition_key_field_name st \<noteq> PStr (name f)
      then Inl (PartitionKeyException (PartitionKeyOnlyOne (ls_partition_key_field_name st) (name f)))
      else case check_fields_loop (step_state st i g) (Suc i) fs of
             Inl e \<Rightarrow> Inl e
           | Inr (rest', st') \<Rightarrow> Inr (g # rest', st'))"
proof -
  have g: "flagged st f = (let field1 = (if ls_primary_field_name st = PStr (name f)
                    then f\<lparr>is_primary := True\<rparr> else f) in (if ls_partition_key_field_name st = PStr (name field1)
                   then field1\<lparr>is_partition_key := True\<rparr> else field1))"
    by (cases f) (auto simp: flagged_def Let_def)
  show ?thesis
    unfolding check_fields_loop.simps g
    by (auto simp: Let_def step_state_def split: sum.splits)
qed

lemma flags_added_flagged: "flags_added f (flagged st f)"
  by (cases f) (simp add: flags_added_def flagged_def)

lemma settled_flagged:
  assumes "\<not> (is_primary (flagged st f) \<and> ls_primary_field_name st \<noteq> PNone
              \<and> ls_primary_field_name st \<noteq> PStr (name f))"
    and "\<not> (is_partition_key (flagged st f) \<and> ls_partition_key_field_name st \<noteq> PNone
              \<and> ls_partition_key_field_name st \<noteq> PStr (name f))"
  shows "settled st (flagged st f)"
  using assms by (auto simp: settled_def flagged_def)

lemma flagged_settled: "settled st f \<Longrightarrow> flagged st f = f"
  by (cases f) (auto simp: settled_def flagged_def)

lemma loop_result:
  "check_fields_loop st i fs = Inr (fs', st') \<Longrightarrow>
     st' = run_state st i fs' \<and> stable st i fs' \<and> list_all2 flags_added fs fs'"
proof (induction fs arbitrary: st i fs')
  case Nil
  then show ?case by simp
next
  case (Cons f fs)
  let ?g = "flagged st f"
  from Cons.prems obtain rest' where
    ok1: "\<not> (is_primary ?g \<and> ls_primary_field_name st \<noteq> PNone
              \<and> ls_primary_field_name st \<noteq> PStr (name f))"
    and ok2: "\<not> (is_partition_key ?g \<and> ls_partition_key_field_name st \<noteq> PNone
              \<and> ls_partition_key_field_name st \<noteq> PStr (name f))"
    and rec: "check_fields_loop (step_state st i ?g) (Suc i) fs = Inr (rest', st')"
    and fs': "fs' = ?g # rest'"
    unfolding loop_Cons
    by (auto simp: Let_def split: if_splits sum.splits)
  from Cons.IH[OF rec] settled_flagged[OF ok1 ok2] flags_added_flagged[of f st] fs'
  show ?case by simp
qed

lemma stable_loop:
  "stable st i fs \<Longrightarrow> check_fields_loop st i fs = Inr (fs, run_state st i fs)"
proof (induction fs arbitrary: st i)
  case Nil
  then show ?case by simp
next
  case (Cons f fs)
  then have s: "settled st f" and r: "stable (step_state st i f) (Suc i) fs" by simp_all
  from s have g: "flagged st f = f" by (rule flagged_settled)
  from s have "\<not> (is_primary f \<and> ls_primary_field_name st \<noteq> PNone
              \<and> ls_primary_field_name st \<noteq> PStr (name f))"
    "\<not> (is_partition_key f \<and> ls_partition_key_field_name st \<noteq> PNone
              \<and> ls_partition_key_field_name st \<noteq> PStr (name f))"
    by (auto simp: settled_def)
  then show ?case
    unfolding loop_Cons using Cons.IH[OF r] by (simp add: g Let_def)
qed

lemma sig_step: "sig f = sig g \<Longrightarrow> step_state st i f = step_state st i g"
  by (simp add: sig_def step_state_def)

lemma sig_settled: "sig f = sig g \<Longrightarrow> settled st f = settled st g"
  by (simp add: sig_def settled_def)

lemma sig_run_state: "map sig fs = map sig gs \<Longrightarrow> run_state st i fs = run_state st i gs"
proof (induction fs arbitrary: gs st i)
  case Nil
  then show ?case by simp
next
  case (Cons f fs)
  then obtain g gs' where "gs = g # gs'" "sig f = sig g" "map sig fs = map sig gs'" by auto
  then show ?case using Cons.IH[of gs'] by (simp add: sig_step[of f g])
qed

lemma sig_stable: "map sig fs = map sig gs \<Longrightarrow> stable st i fs = stable st i gs"
proof (induction fs arbitrary: gs st i)
  case Nil
  then show ?case by simp
next
  case (Cons f fs)
  then obtain g gs' where "gs = g # gs'" "sig f = sig g" "map sig fs = map sig gs'" by auto
  then show ?case using Cons.IH[of gs'] by (simp add: sig_step[of f g] sig_settled[of f g])
qed

lemma stable_weaker: "stable st i fs \<Longrightarrow> weaker st2 st \<Longrightarrow> stable st2 j fs"
proof (induction fs arbitrary: st st2 i j)
  case Nil
  then show ?case by simp
next
  case (Cons f fs)
  from Cons.prems have s: "settled st f" and r: "stable (step_state st i f) (Suc i) fs"
    by simp_all
  from s Cons.prems(2) have s2: "settled st2 f" by (auto simp: settled_def weaker_def)
  from Cons.prems(2) have "weaker (step_state st2 j f) (step_state st i f)"
    by (auto simp: weaker_def)
  from Cons.IH[OF r this] s2 show ?case by simp
qed

lemma run_state_index:
  "ls_primary_field (run_state st i fs) = Some p \<Longrightarrow>
     ls_primary_field st = Some p \<or> (i \<le> p \<and> p < i + length fs \<and> is_primary (fs ! (p - i)))"
proof (induction fs arbitrary: st i)
  case Nil
  then show ?case by simp
next
  case (Cons f fs)
  from Cons.IH[OF Cons.prems[simplified]]
  show ?case
    by (auto simp: nth_Cons' split: if_splits)
qed

lemma run_state_partition_index:
  "ls_partition_key_field (run_state st i fs) = Some p \<Longrightarrow>
     ls_partition_key_field st = Some p
     \<or> (i \<le> p \<and> p < i + length fs \<and> is_partition_key (fs ! (p - i)))"
proof (induction fs arbitrary: st i)
  case Nil
  then show ?case by simp
next
  case (Cons f fs)
  from Cons.IH[OF Cons.prems[simplified]]
  show ?case
    by (auto simp: nth_Cons' split: if_splits)
qed

lemma run_state_indices_cong:
  "ls_primary_field st = ls_primary_field st2 \<Longrightarrow>
   ls_partition_key_field st = ls_partition_key_field st2 \<Longrightarrow>
     ls_primary_field (run_state st i fs) = ls_primary_field (run_state st2 i fs)
     \<and> ls_partition_key_field (run_state st i fs) = ls_partition_key_field (run_state st2 i fs)"
  by (induction fs arbitrary: st st2 i) simp_all

lemma run_state_no_partition:
  "ls_partition_key_field (run_state st i fs) = None \<Longrightarrow>
     ls_partition_key_field_name (run_state st i fs) = ls_partition_key_field_name st"
proof (induction fs arbitrary: st i)
  case Nil
  then show ?case by simp
next
  case (Cons f fs)
  have "is_partition_key f \<Longrightarrow> ls_partition_key_field (run_state (step_state st i f) (Suc i) fs) \<noteq> None"
  proof -
    assume pk: "is_partition_key f"
    have "\<And>st i. ls_partition_key_field st \<noteq> None \<Longrightarrow> ls_partition_key_field (run_state st i fs) \<noteq> None"
      by (induction fs) auto
    then show ?thesis using pk by simp
  qed
  with Cons.prems have np: "\<not> is_partition_key f" by auto
  with Cons.IH[of "step_state st i f" "Suc i"] Cons.prems show ?case by simp
qed

subsection \<open>CollectionSchema: construction and round trip\<close>

lemma deepcopy_fields_ok:
  "type_params_apart E \<Longrightarrow> list_all (field_ok E) fs \<Longrightarrow>
     deepcopy_fields E fs = Inr (map reloaded fs)"
  by (induction fs) (simp_all add: FieldSchema_deepcopy_def roundtrip)

lemma construct_fields_from_dicts_ok:
  "type_params_apart E \<Longrightarrow> list_all (field_ok E) fs \<Longrightarrow>
     construct_fields_from_dicts E (map to_dict fs) = Inr (map reloaded fs)"
  by (induction fs) (simp_all add: roundtrip)

lemma deepcopy_fields_field_ok:
  "deepcopy_fields E fs = Inr gs \<Longrightarrow> list_all (field_ok E) gs"
proof (induction fs arbitrary: gs)
  case Nil
  then show ?case by simp
next
  case (Cons f fs)
  then obtain g gs' where g: "FieldSchema_deepcopy E f = Inr g"
    and gs': "deepcopy_fields E fs = Inr gs'" and gs: "gs = g # gs'"
    by (auto split: sum.splits)
  from g have "field_ok E g"
    by (simp add: FieldSchema_deepcopy_def construct_from_dict_def FieldSchema_init_field_ok)
  with Cons.IH[OF gs'] gs show ?case by simp
qed

lemma flags_added_field_ok: "flags_added f g \<Longrightarrow> field_ok E f \<Longrightarrow> field_ok E g"
proof -
  assume a: "flags_added f g" and ok: "field_ok E f"
  from a have g: "g = f\<lparr>is_primary := is_primary g, is_partition_key := is_partition_key g\<rparr>"
    and p: "is_primary f \<longrightarrow> is_primary g"
    by (simp_all add: flags_added_def)
  have "field_ok E (f\<lparr>is_primary := is_primary g, is_partition_key := is_partition_key g\<rparr>)"
    using ok p by (simp add: field_ok_def)
  with g show ?thesis by simp
qed

lemma flags_added_list_ok:
  "list_all2 flags_added fs gs \<Longrightarrow> list_all (field_ok E) fs \<Longrightarrow> list_all (field_ok E) gs"
  by (induction rule: list_all2_induct) (auto intro: flags_added_field_ok)

lemma sig_reloaded: "sig (reloaded f) = sig f"
  by (simp add: sig_def reloaded_def)

lemma reloaded_sel:
  "name (reloaded f) = name f" "dtype (reloaded f) = dtype f"
  "is_primary (reloaded f) = is_primary f" "auto_id (reloaded f) = auto_id f"
  "is_partition_key (reloaded f) = is_partition_key f"
  by (simp_all add: reloaded_def)

text \<open>\<open>_check_fields\<close> on a fresh object, after its loop.\<close>

lemma check_fields_after_loop:
  assumes fresh: "cs_primary_field s0 = None" "cs_partition_key_field s0 = None"
    and s0: "cs_fields s0 = fs0" "cs_kwargs s0 = kw"
    and st0: "st0 = \<lparr> ls_primary_field_name = dict_get kw ''primary_field'' PNone,
         ls_partition_key_field_name = dict_get kw ''partition_key_field'' PNone,
         ls_primary_field = None, ls_partition_key_field = None \<rparr>"
    and loop: "check_fields_loop st0 0 fs0 = Inr (fs1, st1)"
  shows "check_fields s0 =
     (case ls_primary_field st1 of
        None \<Rightarrow> Inl (PrimaryKeyException PrimaryKeyNotExist)
      | Some p \<Rightarrow>
          if dtype (fs1 ! p) \<notin> {INT64, VARCHAR} then Inl (PrimaryKeyException PrimaryKeyType)
          else (case validate_partition_key (ls_partition_key_field_name st1)
                       (map_option ((!) fs1) (ls_partition_key_field st1)) (name (fs1 ! p)) of
                  Inl e \<Rightarrow> Inl e
                | Inr u \<Rightarrow>
                    Inr (s0\<lparr>cs_fields :=
                              (if truthy (dict_get kw ''auto_id'' (PBool False))
                               then fs1[p := (fs1 ! p)\<lparr>auto_id := True\<rparr>] else fs1),
                            cs_primary_field := Some p,
                            cs_partition_key_field := ls_partition_key_field st1\<rparr>)))"
  using loop
  by (simp add: check_fields_def fresh s0 st0[symmetric] validate_primary_key_def
      primary_field_def partition_key_field_def Let_def
      split: option.splits sum.splits)

lemma check_fields_loop_fails:
  assumes fresh: "cs_primary_field s0 = None" "cs_partition_key_field s0 = None"
    and s0: "cs_fields s0 = fs0" "cs_kwargs s0 = kw"
    and st0: "st0 = \<lparr> ls_primary_field_name = dict_get kw ''primary_field'' PNone,
         ls_partition_key_field_name = dict_get kw ''partition_key_field'' PNone,
         ls_primary_field = None, ls_partition_key_field = None \<rparr>"
    and loop: "check_fields_loop st0 0 fs0 = Inl e"
  shows "check_fields s0 = Inl e"
  using loop by (simp add: check_fields_def fresh s0 st0[symmetric])

text \<open>What a successful \<open>_check_fields\<close> on a fresh object has established.\<close>

lemma check_fields_success:
  assumes cf: "check_fields s0 = Inr s"
    and fresh: "cs_primary_field s0 = None" "cs_partition_key_field s0 = None"
    and s0: "cs_fields s0 = fs0" "cs_kwargs s0 = kw"
    and st0: "st0 = \<lparr> ls_primary_field_name = dict_get kw ''primary_field'' PNone,
         ls_partition_key_field_name = dict_get kw ''partition_key_field'' PNone,
         ls_primary_field = None, ls_partition_key_field = None \<rparr>"
  shows "\<exists>fs1 st1 p.
    check_fields_loop st0 0 fs0 = Inr (fs1, st1)
    \<and> ls_primary_field st1 = Some p \<and> p < length fs1 \<and> is_primary (fs1 ! p)
    \<and> dtype (fs1 ! p) \<in> {INT64, VARCHAR}
    \<and> (case ls_partition_key_field st1 of
         Some q \<Rightarrow> q < length fs1 \<and> dtype (fs1 ! q) \<in> {INT64, VARCHAR}
       | None \<Rightarrow> ls_partition_key_field_name st1 = PNone)
    \<and> s = s0\<lparr>cs_fields := (if truthy (dict_get kw ''auto_id'' (PBool False))
                           then fs1[p := (fs1 ! p)\<lparr>auto_id := True\<rparr>] else fs1),
            cs_primary_field := Some p,
            cs_partition_key_field := ls_partition_key_field st1\<rparr>"
proof (cases "check_fields_loop st0 0 fs0")
  case (Inl e)
  from check_fields_loop_fails[OF fresh s0 st0 Inl] cf show ?thesis by simp
next
  case (Inr r)
  obtain fs1 st1 where r: "r = (fs1, st1)" by (cases r)
  with Inr have loop: "check_fields_loop st0 0 fs0 = Inr (fs1, st1)" by simp
  note after = check_fields_after_loop[OF fresh s0 st0 loop]
  from after cf obtain p where p: "ls_primary_field st1 = Some p"
    by (cases "ls_primary_field st1") auto
  from loop_result[OF loop] have st1: "st1 = run_state st0 0 fs1" by simp
  from run_state_index[of st0 0 fs1 p] p st1 st0 have pl: "p < length fs1" "is_primary (fs1 ! p)"
    by auto
  from after cf p have dt: "dtype (fs1 ! p) \<in> {INT64, VARCHAR}"
    by (auto split: if_splits)
  from after cf p dt have vp: "validate_partition_key (ls_partition_key_field_name st1)
                       (map_option ((!) fs1) (ls_partition_key_field st1)) (name (fs1 ! p)) = Inr ()"
    and s: "s = s0\<lparr>cs_fields := (if truthy (dict_get kw ''auto_id'' (PBool False))
                           then fs1[p := (fs1 ! p)\<lparr>auto_id := True\<rparr>] else fs1),
            cs_primary_field := Some p,
            cs_partition_key_field := ls_partition_key_field st1\<rparr>"
    by (auto split: if_splits sum.splits)
  have pk: "case ls_partition_key_field st1 of
       Some q \<Rightarrow> q < length fs1 \<and> dtype (fs1 ! q) \<in> {INT64, VARCHAR}
     | None \<Rightarrow> ls_partition_key_field_name st1 = PNone"
  proof (cases "ls_partition_key_field st1")
    case None
    with vp show ?thesis
      by (auto simp: validate_partition_key_def split: if_splits)
  next
    case (Some q)
    from run_state_partition_index[of st0 0 fs1 q] Some st1 st0 have "q < length fs1" by auto
    with vp Some show ?thesis
      by (auto simp: validate_partition_key_def Let_def split: if_splits)
  qed
  from loop p pl dt pk s show ?thesis by blast
qed

lemma check_fields_stable:
  assumes fresh: "cs_primary_field s0 = None" "cs_partition_key_field s0 = None"
    and s0: "cs_fields s0 = fs0" "cs_kwargs s0 = kw"
    and st0: "st0 = \<lparr> ls_primary_field_name = dict_get kw ''primary_field'' PNone,
         ls_partition_key_field_name = dict_get kw ''partition_key_field'' PNone,
         ls_primary_field = None, ls_partition_key_field = None \<rparr>"
    and stab: "stable st0 0 fs0"
    and p: "ls_primary_field (run_state st0 0 fs0) = Some p"
    and dt: "dtype (fs0 ! p) \<in> {INT64, VARCHAR}"
    and pk: "case ls_partition_key_field (run_state st0 0 fs0) of
       Some q \<Rightarrow> dtype (fs0 ! q) \<in> {INT64, VARCHAR}
     | None \<Rightarrow> ls_partition_key_field_name (run_state st0 0 fs0) = PNone"
    and na: "\<not> truthy (dict_get kw ''auto_id'' (PBool False))"
  shows "check_fields s0 =
           Inr (s0\<lparr>cs_fields := fs0, cs_primary_field := Some p,
                   cs_partition_key_field := ls_partition_key_field (run_state st0 0 fs0)\<rparr>)"
proof -
  have loop: "check_fields_loop st0 0 fs0 = Inr (fs0, run_state st0 0 fs0)"
    using stab by (rule stable_loop)
  have vp: "validate_partition_key
              (ls_partition_key_field_name (run_state st0 0 fs0))
              (map_option ((!) fs0) (ls_partition_key_field (run_state st0 0 fs0))) n = Inr ()"
    for n
    using pk by (auto simp: validate_partition_key_def Let_def split: option.splits)
  show ?thesis
    using p dt na vp
    by (simp add: check_fields_after_loop[OF fresh s0 st0 loop])
qed

lemma map_sig_update:
  "p < length fs \<Longrightarrow> map sig (fs[p := (fs ! p)\<lparr>auto_id := a\<rparr>]) = map sig fs"
  by (simp add: list_eq_iff_nth_eq nth_list_update sig_def)

lemma field_ok_update:
  "list_all (field_ok E) fs \<Longrightarrow> p < length fs \<Longrightarrow> is_primary (fs ! p) \<Longrightarrow>
     list_all (field_ok E) (fs[p := (fs ! p)\<lparr>auto_id := True\<rparr>])"
  by (auto simp: list_all_length nth_list_update field_ok_def)

lemma collection_roundtrip:
  assumes ap: "type_params_apart E"
    and init: "CollectionSchema_init E flds cdescr ckw = Inr s"
    and chk: "truthy (dict_get ckw ''check_fields'' (PBool True))"
  shows "\<exists>d s'. CollectionSchema_to_dict s = Inr d
           \<and> CollectionSchema_construct_from_dict E d = Inr s'
           \<and> CollectionSchema_to_dict s' = Inr d"
proof -
  from init chk obtain fs0 where dc: "deepcopy_fields E flds = Inr fs0"
    and cf: "check_fields \<lparr> cs_fields = fs0, cs_description = cdescr, cs_kwargs = ckw,
                     cs_enable_dynamic_field = dict_get ckw ''enable_dynamic_field'' (PBool False),
                     cs_primary_field = None, cs_partition_key_field = None \<rparr> = Inr s"
    by (auto simp: CollectionSchema_init_def Let_def split: sum.splits)
  let ?s0 = "\<lparr> cs_fields = fs0, cs_description = cdescr, cs_kwargs = ckw,
                     cs_enable_dynamic_field = dict_get ckw ''enable_dynamic_field'' (PBool False),
                     cs_primary_field = None, cs_partition_key_field = None \<rparr>"
  let ?st0 = "\<lparr> ls_primary_field_name = dict_get ckw ''primary_field'' PNone,
         ls_partition_key_field_name = dict_get ckw ''partition_key_field'' PNone,
         ls_primary_field = None, ls_partition_key_field = None \<rparr>"
  have "\<exists>fs1 st1 p.
    check_fields_loop ?st0 0 fs0 = Inr (fs1, st1)
    \<and> ls_primary_field st1 = Some p \<and> p < length fs1 \<and> is_primary (fs1 ! p)
    \<and> dtype (fs1 ! p) \<in> {INT64, VARCHAR}
    \<and> (case ls_partition_key_field st1 of
         Some q \<Rightarrow> q < length fs1 \<and> dtype (fs1 ! q) \<in> {INT64, VARCHAR}
       | None \<Rightarrow> ls_partition_key_field_name st1 = PNone)
    \<and> s = ?s0\<lparr>cs_fields := (if truthy (dict_get ckw ''auto_id'' (PBool False))
                           then fs1[p := (fs1 ! p)\<lparr>auto_id := True\<rparr>] else fs1),
            cs_primary_field := Some p,
            cs_partition_key_field := ls_partition_key_field st1\<rparr>"
    by (rule check_fields_success[OF cf]) simp_all
  then obtain fs1 st1 p where
    loop: "check_fields_loop ?st0 0 fs0 = Inr (fs1, st1)"
    and p: "ls_primary_field st1 = Some p" "p < length fs1" "is_primary (fs1 ! p)"
    and dt: "dtype (fs1 ! p) \<in> {INT64, VARCHAR}"
    and pk: "case ls_partition_key_field st1 of
       Some q \<Rightarrow> q < length fs1 \<and> dtype (fs1 ! q) \<in> {INT64, VARCHAR}
     | None \<Rightarrow> ls_partition_key_field_name st1 = PNone"
    and s: "s = ?s0\<lparr>cs_fields := (if truthy (dict_get ckw ''auto_id'' (PBool False))
                           then fs1[p := (fs1 ! p)\<lparr>auto_id := True\<rparr>] else fs1),
            cs_primary_field := Some p,
            cs_partition_key_field := ls_partition_key_field st1\<rparr>"
    by blast
  define fsS where "fsS = cs_fields s"
  define e where "e = (if truthy (cs_enable_dynamic_field s) then cs_enable_dynamic_field s
                       else PBool False)"
  from loop_result[OF loop] have st1: "st1 = run_state ?st0 0 fs1"
    and stab1: "stable ?st0 0 fs1" and fa: "list_all2 flags_added fs0 fs1"
    by simp_all
  have ok1: "list_all (field_ok E) fs1"
    using flags_added_list_ok[OF fa deepcopy_fields_field_ok[OF dc]] .
  have fsS: "fsS = (if truthy (dict_get ckw ''auto_id'' (PBool False))
                           then fs1[p := (fs1 ! p)\<lparr>auto_id := True\<rparr>] else fs1)"
    by (simp add: fsS_def s)
  have lenS: "length fsS = length fs1" by (simp add: fsS)
  have okS: "list_all (field_ok E) fsS"
    using ok1 p field_ok_update[of E fs1 p] by (simp add: fsS)
  have sigS: "map sig fsS = map sig fs1"
    using p map_sig_update[of p fs1 True] by (simp add: fsS)
  have dtS: "dtype (fsS ! k) = dtype (fs1 ! k)" if "k < length fs1" for k
    using that by (cases "k = p") (simp_all add: fsS)
  have sp: "cs_primary_field s = Some p" "cs_partition_key_field s = ls_partition_key_field st1"
    "cs_description s = cdescr" by (simp_all add: s)
  (* The mapping of s. *)
  define d where "d = \<lparr> cd_auto_id = auto_id (fsS ! p), cd_description = cdescr,
                cd_fields = map to_dict fsS,
                cd_enable_dynamic_field =
                  (if truthy (cs_enable_dynamic_field s)
                   then Some (cs_enable_dynamic_field s) else None) \<rparr>"
  have td: "CollectionSchema_to_dict s = Inr d"
    by (simp add: CollectionSchema_to_dict_def CollectionSchema_auto_id_def primary_field_def
        sp d_def fsS_def)
  (* The object built from the mapping. *)
  define fs2 where "fs2 = map reloaded (map reloaded fsS)"
  let ?kw2 = "[''enable_dynamic_field'' \<mapsto> e]"
  let ?t0 = "\<lparr> cs_fields = fs2, cs_description = cdescr, cs_kwargs = ?kw2,
                     cs_enable_dynamic_field = e,
                     cs_primary_field = None, cs_partition_key_field = None \<rparr>"
  let ?u0 = "\<lparr> ls_primary_field_name = PNone, ls_partition_key_field_name = PNone,
         ls_primary_field = None, ls_partition_key_field = None \<rparr>"
  have cfd: "construct_fields_from_dicts E (cd_fields d) = Inr (map reloaded fsS)"
    using construct_fields_from_dicts_ok[OF ap okS] by (simp add: d_def)
  have okR: "list_all (field_ok E) (map reloaded fsS)"
    using okS by (simp add: list_all_length field_ok_reloaded)
  have dc2: "deepcopy_fields E (map reloaded fsS) = Inr fs2"
    using deepcopy_fields_ok[OF ap okR] by (simp add: fs2_def)
  have sig2: "map sig fs2 = map sig fs1"
    using sigS by (simp add: fs2_def sig_reloaded comp_def)
  have stab2: "stable ?u0 0 fs2"
  proof -
    have "stable ?st0 0 fs2" using stab1 sig_stable[OF sig2] by simp
    moreover have "weaker ?u0 ?st0" by (simp add: weaker_def)
    ultimately show ?thesis by (rule stable_weaker)
  qed
  have run2: "run_state ?u0 0 fs2 = run_state ?u0 0 fs1"
    using sig_run_state[OF sig2] .
  have idx: "ls_primary_field (run_state ?u0 0 fs1) = Some p"
    "ls_partition_key_field (run_state ?u0 0 fs1) = ls_partition_key_field st1"
    using run_state_indices_cong[of ?u0 ?st0 0 fs1] p st1 by simp_all
  have nth2: "fs2 ! k = reloaded (reloaded (fsS ! k))" if "k < length fs1" for k
    using that lenS by (simp add: fs2_def)
  have pk2: "case ls_partition_key_field (run_state ?u0 0 fs2) of
       Some q \<Rightarrow> dtype (fs2 ! q) \<in> {INT64, VARCHAR}
     | None \<Rightarrow> ls_partition_key_field_name (run_state ?u0 0 fs2) = PNone"
  proof (cases "ls_partition_key_field st1")
    case None
    then have "ls_partition_key_field (run_state ?u0 0 fs1) = None" using idx by simp
    from run_state_no_partition[OF this] this show ?thesis by (simp add: run2)
  next
    case (Some q)
    with pk have "q < length fs1" "dtype (fs1 ! q) \<in> {INT64, VARCHAR}" by simp_all
    then show ?thesis using Some idx dtS[of q] nth2[of q]
      by (simp add: run2 reloaded_sel del: insert_iff)
  qed
  have dt2: "dtype (fs2 ! p) \<in> {INT64, VARCHAR}"
    using dt p dtS[of p] nth2[of p] by (simp add: reloaded_sel del: insert_iff)
  have u0: "?u0 = \<lparr> ls_primary_field_name = dict_get ?kw2 ''primary_field'' PNone,
         ls_partition_key_field_name = dict_get ?kw2 ''partition_key_field'' PNone,
         ls_primary_field = None, ls_partition_key_field = None \<rparr>"
    by (simp add: dict_get_def)
  have p2: "ls_primary_field (run_state ?u0 0 fs2) = Some p"
    and q2: "ls_partition_key_field (run_state ?u0 0 fs2) = ls_partition_key_field st1"
    using idx by (simp_all add: run2)
  have na2: "\<not> truthy (dict_get ?kw2 ''auto_id'' (PBool False))"
    by (simp add: dict_get_def)
  have "check_fields ?t0 =
           Inr (?t0\<lparr>cs_fields := fs2, cs_primary_field := Some p,
                   cs_partition_key_field :=
                     ls_partition_key_field (run_state ?u0 0 fs2)\<rparr>)"
    by (rule check_fields_stable[OF _ _ _ _ u0 stab2 p2 dt2 pk2 na2]) simp_all
  then have cf2: "check_fields ?t0 =
           Inr (?t0\<lparr>cs_primary_field := Some p,
                   cs_partition_key_field := ls_partition_key_field st1\<rparr>)"
    by (simp add: q2)
  have ck2: "check_kwargs ?t0 = Inr ()"
    by (simp add: check_kwargs_def dict_get_def)
  have e_get: "(case cd_enable_dynamic_field d of None \<Rightarrow> PBool False | Some v \<Rightarrow> v) = e"
    by (simp add: d_def e_def)
  have init2: "CollectionSchema_construct_from_dict E d =
          Inr (?t0\<lparr>cs_primary_field := Some p,
                   cs_partition_key_field := ls_partition_key_field st1\<rparr>)"
    using cfd dc2 ck2 cf2 e_get
    by (simp add: CollectionSchema_construct_from_dict_def CollectionSchema_init_def
        dict_get_def d_def)
  have tdf: "map to_dict fs2 = map to_dict fsS"
    by (simp add: fs2_def to_dict_reloaded comp_def)
  have td2: "CollectionSchema_to_dict (?t0\<lparr>cs_primary_field := Some p,
                   cs_partition_key_field := ls_partition_key_field st1\<rparr>) = Inr d"
    using p nth2[of p]
    by (simp add: CollectionSchema_to_dict_def CollectionSchema_auto_id_def primary_field_def
        d_def reloaded_sel tdf e_def)
  from td init2 td2 show ?thesis by blast
qed

lemma example_collab_apart: "type_params_apart example_collab"
  by (simp add: type_params_apart_def example_collab_def reserved_keywords_def)

lemma example_vec_init:
  "FieldSchema_init example_collab ''vec'' (Member FLOAT_VECTOR) [] [''dim'' \<mapsto> PInt 8]
     = Inr example_vec"
  by (simp add: FieldSchema_init_def dict_get_def check_auto_id_def init_default_value_def
      parse_type_params_restrict example_collab_def example_vec_def plain_field_def
      restrict_map_def fun_eq_iff)

lemma example_id_init:
  "FieldSchema_init example_collab ''id'' (Member INT64) []
      [''is_primary'' \<mapsto> PBool True, ''auto_id'' \<mapsto> PBool True]
     = Inr example_id"
  by (simp add: FieldSchema_init_def dict_get_def check_auto_id_def init_default_value_def
      parse_type_params_restrict example_collab_def example_id_def plain_field_def)

lemma example_fields_ok: "field_ok example_collab example_vec" "field_ok example_collab example_id"
  using FieldSchema_init_field_ok[OF example_vec_init] FieldSchema_init_field_ok[OF example_id_init]
  by simp_all

lemma example_schema_init:
  "CollectionSchema_init example_collab [example_id, example_vec] [] Map.empty = Inr example_schema"
proof -
  have dc: "deepcopy_fields example_collab [example_id, example_vec]
          = Inr [reloaded example_id, reloaded example_vec]"
    using deepcopy_fields_ok[OF example_collab_apart, of "[example_id, example_vec]"]
      example_fields_ok by simp
  have sel: "is_primary (reloaded example_id)" "\<not> is_partition_key (reloaded example_id)"
    "\<not> is_primary (reloaded example_vec)" "\<not> is_partition_key (reloaded example_vec)"
    "name (reloaded example_id) = ''id''" "name (reloaded example_vec) = ''vec''"
    "dtype (reloaded example_id) = INT64"
    by (simp_all add: reloaded_def example_id_def example_vec_def plain_field_def)
  show ?thesis
    unfolding CollectionSchema_init_def dc
    by (simp add: check_kwargs_def dict_get_def check_fields_def
        Let_def sel validate_primary_key_def validate_partition_key_def primary_field_def
        partition_key_field_def example_schema_def)
qed

text \<open>
  Claim C2. Let the recognised type parameters be none of the keywords that
  \<open>construct_from_dict\<close> sets itself. Every \<open>FieldSchema\<close> that constructs comes back
  from its own mapping as an equal field, equality being equality of the \<open>to_dict\<close>
  forms. Every \<open>CollectionSchema\<close> constructed with \<open>check_fields\<close> enabled has a
  mapping, this mapping constructs a schema, and the schema is equal to the first.
\<close>

theorem C2_roundtrip:
  assumes "type_params_apart E"
  shows "(FieldSchema_init E nm dt descr kw = Inr f \<longrightarrow>
            (\<exists>g. construct_from_dict E (to_dict f) = Inr g \<and> FieldSchema_eq g f))
         \<and> (CollectionSchema_init E flds cdescr ckw = Inr s
              \<and> truthy (dict_get ckw ''check_fields'' (PBool True)) \<longrightarrow>
              (\<exists>d s'. CollectionSchema_to_dict s = Inr d
                 \<and> CollectionSchema_construct_from_dict E d = Inr s'
                 \<and> CollectionSchema_eq s' s = Inr True))"
proof (intro conjI impI)
  assume "FieldSchema_init E nm dt descr kw = Inr f"
  then have "field_ok E f" by (rule FieldSchema_init_field_ok)
  from roundtrip[OF assms this]
  show "\<exists>g. construct_from_dict E (to_dict f) = Inr g \<and> FieldSchema_eq g f"
    by (simp add: FieldSchema_eq_def to_dict_reloaded)
next
  assume "CollectionSchema_init E flds cdescr ckw = Inr s
            \<and> truthy (dict_get ckw ''check_fields'' (PBool True))"
  then have "\<exists>d s'. CollectionSchema_to_dict s = Inr d
           \<and> CollectionSchema_construct_from_dict E d = Inr s'
           \<and> CollectionSchema_to_dict s' = Inr d"
    using collection_roundtrip[OF assms] by blast
  then show "\<exists>d s'. CollectionSchema_to_dict s = Inr d
                 \<and> CollectionSchema_construct_from_dict E d = Inr s'
                 \<and> CollectionSchema_eq s' s = Inr True"
    by (auto simp: CollectionSchema_eq_def)
qed

theorem C2_roundtrip_witness:
  "type_params_apart example_collab
   \<and> FieldSchema_init example_collab ''vec'' (Member FLOAT_VECTOR) [] [''dim'' \<mapsto> PInt 8]
       = Inr example_vec
   \<and> (\<exists>g. construct_from_dict example_collab (to_dict example_vec) = Inr g
           \<and> FieldSchema_eq g example_vec)
   \<and> CollectionSchema_init example_collab [example_id, example_vec] [] Map.empty
       = Inr example_schema
   \<and> (\<exists>d s'. CollectionSchema_to_dict example_schema = Inr d
          \<and> CollectionSchema_construct_from_dict example_collab d = Inr s'
          \<and> CollectionSchema_eq s' example_schema = Inr True)"
  using C2_roundtrip [OF example_collab_apart, of "''vec''" "Member FLOAT_VECTOR" "[]"
                        "[''dim'' \<mapsto> PInt 8]" example_vec "[example_id, example_vec]" "[]"
                        Map.empty example_schema]
        example_collab_apart example_vec_init example_schema_init
  by (simp add: dict_get_def)

text \<open>
  Claim C1: what the code does on
  \<open>CollectionSchema([FieldSchema("pk", INT64, is_primary=True, is_partition_key=True)])\<close>.
  The field is both the primary and the partition-key field, and the construction
  succeeds: \<open>validate_partition_key\<close> builds the exception for this case and drops it.
\<close>

theorem C1_partition_key_is_primary_accepted:
  "FieldSchema_init example_collab ''pk'' (Member INT64) []
       [''is_primary'' \<mapsto> PBool True, ''is_partition_key'' \<mapsto> PBool True]
     = Inr example_key
   \<and> CollectionSchema_init example_collab [example_key] [] Map.empty
       = Inr \<lparr> cs_fields = [reloaded example_key], cs_description = [],
               cs_kwargs = Map.empty, cs_enable_dynamic_field = PBool False,
               cs_primary_field = Some 0, cs_partition_key_field = Some 0 \<rparr>"
proof -
  have i: "FieldSchema_init example_collab ''pk'' (Member INT64) []
       [''is_primary'' \<mapsto> PBool True, ''is_partition_key'' \<mapsto> PBool True]
     = Inr example_key"
    by (simp add: FieldSchema_init_def dict_get_def check_auto_id_def init_default_value_def
        parse_type_params_restrict example_collab_def example_key_def plain_field_def)
  have dc: "deepcopy_fields example_collab [example_key] = Inr [reloaded example_key]"
    using deepcopy_fields_ok[OF example_collab_apart, of "[example_key]"]
      FieldSchema_init_field_ok[OF i] by simp
  have sel: "is_primary (reloaded example_key)" "is_partition_key (reloaded example_key)"
    "name (reloaded example_key) = ''pk''" "dtype (reloaded example_key) = INT64"
    by (simp_all add: reloaded_def example_key_def plain_field_def)
  have "CollectionSchema_init example_collab [example_key] [] Map.empty
       = Inr \<lparr> cs_fields = [reloaded example_key], cs_description = [],
               cs_kwargs = Map.empty, cs_enable_dynamic_field = PBool False,
               cs_primary_field = Some 0, cs_partition_key_field = Some 0 \<rparr>"
    unfolding CollectionSchema_init_def dc
    by (simp add: check_kwargs_def dict_get_def check_fields_def
        Let_def sel validate_primary_key_def validate_partition_key_def primary_field_def
        partition_key_field_def)
  with i show ?thesis by simp
qed

subsection \<open>The primary key of a CollectionSchema\<close>

lemma check_kwargs_iff: "check_kwargs s = Inr () \<longleftrightarrow> hints_well_typed (cs_kwargs s)"
  by (auto simp: check_kwargs_def hints_well_typed_def Let_def split: option.splits)

lemma loop_errors:
  "check_fields_loop st i fs = Inl e \<Longrightarrow>
     is_PrimaryKeyError (Inl e :: error + unit) \<or> is_PartitionKeyError (Inl e :: error + unit)"
proof (induction fs arbitrary: st i)
  case Nil
  then show ?case by simp
next
  case (Cons f fs)
  from Cons.prems show ?case
    unfolding loop_Cons
    by (auto simp: Let_def split: if_splits sum.splits dest: Cons.IH)
qed

lemma loop_append:
  "check_fields_loop st i (xs @ ys) =
     (case check_fields_loop st i xs of
        Inl e \<Rightarrow> Inl e
      | Inr (xs', st1) \<Rightarrow>
          (case check_fields_loop st1 (i + length xs) ys of
             Inl e \<Rightarrow> Inl e
           | Inr (ys', st2) \<Rightarrow> Inr (xs' @ ys', st2)))"
proof (induction xs arbitrary: st i)
  case Nil
  then show ?case by (simp split: sum.splits)
next
  case (Cons x xs)
  show ?case
    unfolding append_Cons loop_Cons
    by (simp add: Let_def Cons.IH split: sum.splits prod.splits)
qed

lemma loop_length:
  "check_fields_loop st i fs = Inr (fs', st') \<Longrightarrow> length fs' = length fs"
  using loop_result[of st i fs fs' st'] by (auto dest: list_all2_lengthD)

text \<open>A stretch of fields that are not primary and do not carry the running name.\<close>

lemma loop_Cons_cases:
  assumes "check_fields_loop st i (f # fs) = r"
  obtains
    (primary) "is_primary (flagged st f)" "ls_primary_field_name st \<noteq> PNone"
        "ls_primary_field_name st \<noteq> PStr (name f)"
        "r = Inl (PrimaryKeyException (PrimaryKeyOnlyOne (ls_primary_field_name st) (name f)))"
  | (partition) "is_partition_key (flagged st f)" "ls_partition_key_field_name st \<noteq> PNone"
        "ls_partition_key_field_name st \<noteq> PStr (name f)"
        "r = Inl (PartitionKeyException
                    (PartitionKeyOnlyOne (ls_partition_key_field_name st) (name f)))"
  | (later) e where
        "check_fields_loop (step_state st i (flagged st f)) (Suc i) fs = Inl e" "r = Inl e"
  | (finished) rest' st' where
        "check_fields_loop (step_state st i (flagged st f)) (Suc i) fs = Inr (rest', st')"
        "r = Inr (flagged st f # rest', st')"
        "\<not> (is_primary (flagged st f) \<and> ls_primary_field_name st \<noteq> PNone
              \<and> ls_primary_field_name st \<noteq> PStr (name f))"
        "\<not> (is_partition_key (flagged st f) \<and> ls_partition_key_field_name st \<noteq> PNone
              \<and> ls_partition_key_field_name st \<noteq> PStr (name f))"
proof (cases "is_primary (flagged st f) \<and> ls_primary_field_name st \<noteq> PNone
              \<and> ls_primary_field_name st \<noteq> PStr (name f)")
  case True
  with assms primary show ?thesis unfolding loop_Cons by (simp add: Let_def)
next
  case np: False
  show ?thesis
  proof (cases "is_partition_key (flagged st f) \<and> ls_partition_key_field_name st \<noteq> PNone
              \<and> ls_partition_key_field_name st \<noteq> PStr (name f)")
    case True
    with assms np partition show ?thesis unfolding loop_Cons by (simp add: Let_def)
  next
    case npk: False
    show ?thesis
    proof (cases "check_fields_loop (step_state st i (flagged st f)) (Suc i) fs")
      case (Inl e)
      with assms np npk have "r = Inl e" unfolding loop_Cons by (simp add: Let_def)
      with Inl later show ?thesis by blast
    next
      case (Inr p)
      obtain rest' st' where p: "p = (rest', st')" by (cases p)
      with assms np npk Inr have "r = Inr (flagged st f # rest', st')"
        unfolding loop_Cons by (simp add: Let_def)
      with Inr p np npk finished show ?thesis by blast
    qed
  qed
qed

lemma loop_no_primary_error:
  assumes "\<forall>f\<in>set fs. \<not> is_primary f \<and> ls_primary_field_name st \<noteq> PStr (name f)"
    and "check_fields_loop st i fs = Inl e"
  shows "is_PartitionKeyError (Inl e :: error + unit)"
  using assms
proof (induction fs arbitrary: st i)
  case Nil
  then show ?case by simp
next
  case (Cons f fs)
  from Cons.prems(1) have np: "\<not> is_primary (flagged st f)" by (simp add: flagged_def)
  from Cons.prems(1) np have rest:
    "\<forall>h\<in>set fs. \<not> is_primary h
        \<and> ls_primary_field_name (step_state st i (flagged st f)) \<noteq> PStr (name h)"
    by simp
  from Cons.prems(2) show ?case
  proof (cases rule: loop_Cons_cases)
    case primary
    with np show ?thesis by simp
  next
    case partition
    then show ?thesis by simp
  next
    case (later e')
    with Cons.IH[OF rest] show ?thesis by simp
  next
    case (finished rest' st')
    then show ?thesis by simp
  qed
qed

lemma loop_no_primary_result:
  assumes "\<forall>f\<in>set fs. \<not> is_primary f \<and> ls_primary_field_name st \<noteq> PStr (name f)"
    and "check_fields_loop st i fs = Inr (fs', st')"
  shows "ls_primary_field st' = ls_primary_field st
           \<and> ls_primary_field_name st' = ls_primary_field_name st
           \<and> list_all (\<lambda>g. \<not> is_primary g) fs'"
  using assms
proof (induction fs arbitrary: st i fs')
  case Nil
  then show ?case by simp
next
  case (Cons f fs)
  from Cons.prems(1) have np: "\<not> is_primary (flagged st f)" by (simp add: flagged_def)
  from Cons.prems(1) np have rest:
    "\<forall>h\<in>set fs. \<not> is_primary h
        \<and> ls_primary_field_name (step_state st i (flagged st f)) \<noteq> PStr (name h)"
    by simp
  from Cons.prems(2) show ?case
  proof (cases rule: loop_Cons_cases)
    case (finished rest' st'')
    with Cons.IH[OF rest, of "Suc i" rest'] np show ?thesis by simp
  qed simp_all
qed

text \<open>The running partition-key name is a given name only through the hint or a field of that name.\<close>

lemma loop_partition_name:
  assumes "\<forall>f\<in>set fs. name f \<noteq> n" and "check_fields_loop st i fs = Inr (fs', st')"
  shows "(ls_partition_key_field_name st' = PStr n) = (ls_partition_key_field_name st = PStr n)"
  using assms
proof (induction fs arbitrary: st i fs')
  case Nil
  then show ?case by simp
next
  case (Cons f fs)
  from Cons.prems(1) have nf: "name f \<noteq> n" and rest: "\<forall>f\<in>set fs. name f \<noteq> n" by simp_all
  have ng: "name (flagged st f) = name f" by (simp add: flagged_def)
  from Cons.prems(2) show ?case
  proof (cases rule: loop_Cons_cases)
    case (finished rest' st'')
    from Cons.IH[OF rest, of _ "Suc i" rest'] finished nf ng show ?thesis by auto
  qed simp_all
qed

text \<open>Without a partition key the loop raises no partition-key error and sets no such flag.\<close>

lemma loop_no_partition_error:
  assumes "\<forall>f\<in>set fs. \<not> is_partition_key f" and "ls_partition_key_field_name st = PNone"
    and "check_fields_loop st i fs = Inl e"
  shows "is_PrimaryKeyError (Inl e :: error + unit)"
  using assms
proof (induction fs arbitrary: st i)
  case Nil
  then show ?case by simp
next
  case (Cons f fs)
  from Cons.prems(1,2) have np: "\<not> is_partition_key (flagged st f)" by (simp add: flagged_def)
  from Cons.prems(1,2) np have rest: "\<forall>f\<in>set fs. \<not> is_partition_key f"
    "ls_partition_key_field_name (step_state st i (flagged st f)) = PNone"
    by simp_all
  from Cons.prems(3) show ?case
  proof (cases rule: loop_Cons_cases)
    case primary
    then show ?thesis by simp
  next
    case partition
    with np show ?thesis by simp
  next
    case (later e')
    with Cons.IH[OF rest] show ?thesis by simp
  next
    case (finished rest' st')
    then show ?thesis by simp
  qed
qed

lemma loop_no_partition_result:
  assumes "\<forall>f\<in>set fs. \<not> is_partition_key f" and "ls_partition_key_field_name st = PNone"
    and "check_fields_loop st i fs = Inr (fs', st')"
  shows "ls_partition_key_field st' = ls_partition_key_field st
           \<and> ls_partition_key_field_name st' = PNone
           \<and> list_all (\<lambda>g. \<not> is_partition_key g) fs'"
  using assms
proof (induction fs arbitrary: st i fs')
  case Nil
  then show ?case by simp
next
  case (Cons f fs)
  from Cons.prems(1,2) have np: "\<not> is_partition_key (flagged st f)" by (simp add: flagged_def)
  from Cons.prems(1,2) np have rest: "\<forall>f\<in>set fs. \<not> is_partition_key f"
    "ls_partition_key_field_name (step_state st i (flagged st f)) = PNone"
    by simp_all
  from Cons.prems(3) show ?case
  proof (cases rule: loop_Cons_cases)
    case (finished rest' st'')
    with Cons.IH[OF rest, of "Suc i" rest'] np show ?thesis by simp
  qed simp_all
qed

text \<open>In a settled list all primary fields carry one name.\<close>

lemma stable_named:
  "stable st i fs \<Longrightarrow> ls_primary_field_name st = PStr n \<Longrightarrow>
     \<forall>f\<in>set fs. is_primary f \<longrightarrow> name f = n"
proof (induction fs arbitrary: st i)
  case Nil
  then show ?case by simp
next
  case (Cons f fs)
  from Cons.prems have s: "settled st f" and r: "stable (step_state st i f) (Suc i) fs"
    by simp_all
  from s Cons.prems(2) have f: "is_primary f \<longrightarrow> name f = n" by (auto simp: settled_def)
  then have "ls_primary_field_name (step_state st i f) = PStr n" using Cons.prems(2) by simp
  from Cons.IH[OF r this] f show ?case by simp
qed

lemma stable_primary_names:
  "stable st i fs \<Longrightarrow> f \<in> set fs \<Longrightarrow> g \<in> set fs \<Longrightarrow> is_primary f \<Longrightarrow> is_primary g \<Longrightarrow>
     name f = name g"
proof (induction fs arbitrary: st i)
  case Nil
  then show ?case by simp
next
  case (Cons h fs)
  from Cons.prems(1) have r: "stable (step_state st i h) (Suc i) fs" by simp
  show ?case
  proof (cases "is_primary h")
    case True
    then have "ls_primary_field_name (step_state st i h) = PStr (name h)" by simp
    from stable_named[OF r this] have "\<forall>f\<in>set fs. is_primary f \<longrightarrow> name f = name h" .
    with Cons.prems show ?thesis by auto
  next
    case False
    with Cons.prems have "f \<in> set fs" "g \<in> set fs" by auto
    from Cons.IH[OF r this Cons.prems(4,5)] show ?thesis .
  qed
qed

lemma is_PrimaryKeyError_Inl:
  "is_PrimaryKeyError (Inl e :: error + 'a) = (\<exists>m. e = PrimaryKeyException m)"
  by (cases e) simp_all

lemma is_PartitionKeyError_Inl:
  "is_PartitionKeyError (Inl e :: error + 'a) = (\<exists>m. e = PartitionKeyException m)"
  by (cases e) simp_all

lemma validate_partition_key_error:
  "validate_partition_key n pkf pn = Inl e \<Longrightarrow> \<exists>m. e = PartitionKeyException m"
  by (auto simp: validate_partition_key_def Let_def split: option.splits if_splits)

lemma flags_added_sel:
  "flags_added f g \<Longrightarrow> name g = name f \<and> dtype g = dtype f \<and> (is_primary f \<longrightarrow> is_primary g)"
proof -
  assume a: "flags_added f g"
  then have g: "g = f\<lparr>is_primary := is_primary g, is_partition_key := is_partition_key g\<rparr>"
    and p: "is_primary f \<longrightarrow> is_primary g"
    by (simp_all add: flags_added_def)
  have "name (f\<lparr>is_primary := is_primary g, is_partition_key := is_partition_key g\<rparr>) = name f"
    "dtype (f\<lparr>is_primary := is_primary g, is_partition_key := is_partition_key g\<rparr>) = dtype f"
    by simp_all
  with g p show ?thesis by metis
qed

lemma list_all2_in_set:
  "list_all2 P xs ys \<Longrightarrow> x \<in> set xs \<Longrightarrow> \<exists>y\<in>set ys. P x y"
  by (induction rule: list_all2_induct) auto

text \<open>Two primary fields of different names stop the loop.\<close>

lemma loop_two_primaries:
  assumes "f \<in> set fs" "g \<in> set fs" "is_primary f" "is_primary g" "name f \<noteq> name g"
  shows "\<exists>e. check_fields_loop st i fs = Inl e"
proof (cases "check_fields_loop st i fs")
  case (Inl e)
  then show ?thesis by blast
next
  case (Inr r)
  obtain fs' st' where r: "r = (fs', st')" by (cases r)
  from loop_result[of st i fs fs' st'] Inr r
  have stab: "stable st i fs'" and fa: "list_all2 flags_added fs fs'" by simp_all
  from list_all2_in_set[OF fa assms(1)] obtain f' where f': "f' \<in> set fs'" "flags_added f f'"
    by blast
  from list_all2_in_set[OF fa assms(2)] obtain g' where g': "g' \<in> set fs'" "flags_added g g'"
    by blast
  from flags_added_sel[OF f'(2)] flags_added_sel[OF g'(2)] assms(3,4)
  have "is_primary f'" "is_primary g'" "name f' = name f" "name g' = name g" by simp_all
  with stable_primary_names[OF stab f'(1) g'(1)] assms(5) show ?thesis by simp
qed

text \<open>One primary field at position \<open>p\<close>, and no other field of its name.\<close>

lemma loop_one_primary:
  assumes p: "p < length fs" "is_primary (fs ! p)"
    and others: "\<forall>k<length fs. k \<noteq> p \<longrightarrow> \<not> is_primary (fs ! k) \<and> name (fs ! k) \<noteq> name (fs ! p)"
    and hint: "ls_primary_field_name st = PNone \<or> ls_primary_field_name st = PStr (name (fs ! p))"
  shows "(\<forall>e. check_fields_loop st i fs = Inl e \<longrightarrow> is_PartitionKeyError (Inl e :: error + unit))
    \<and> (\<forall>fs' st'. check_fields_loop st i fs = Inr (fs', st') \<longrightarrow>
          ls_primary_field st' = Some (i + p) \<and> length fs' = length fs
          \<and> fs' ! p = (fs ! p)\<lparr>is_primary := True,
                 is_partition_key := is_partition_key (fs ! p)
                    \<or> ls_partition_key_field_name st = PStr (name (fs ! p))\<rparr>)"
proof -
  define n where "n = name (fs ! p)"
  define pre where "pre = take p fs"
  define post where "post = drop (Suc p) fs"
  define f where "f = fs ! p"
  have fs: "fs = pre @ f # post"
    using p(1) by (simp add: pre_def post_def f_def id_take_nth_drop)
  have lpre: "length pre = p" using p(1) by (simp add: pre_def)
  have pre: "\<forall>h\<in>set pre. \<not> is_primary h \<and> name h \<noteq> n"
    using others p(1) by (auto simp: pre_def n_def in_set_conv_nth)
  have post: "\<forall>h\<in>set post. \<not> is_primary h \<and> name h \<noteq> n"
  proof
    fix h assume "h \<in> set post"
    then obtain k where k: "k < length post" "h = post ! k" by (auto simp: in_set_conv_nth)
    then have "h = fs ! (Suc p + k)" "Suc p + k < length fs" "Suc p + k \<noteq> p"
      using p(1) by (simp_all add: post_def)
    with others show "\<not> is_primary h \<and> name h \<noteq> n" by (simp add: n_def)
  qed
  have nf: "name f = n" "is_primary f" using p(2) by (simp_all add: f_def n_def)
  from hint have hint': "ls_primary_field_name st = PNone \<or> ls_primary_field_name st = PStr n"
    by (simp add: n_def)
  with pre have pre': "\<forall>h\<in>set pre. \<not> is_primary h \<and> ls_primary_field_name st \<noteq> PStr (name h)"
    by auto
  show ?thesis
  proof (cases "check_fields_loop st i pre")
    case (Inl e)
    from loop_no_primary_error[OF pre' Inl] Inl show ?thesis
      by (simp add: fs loop_append)
  next
    case (Inr r)
    obtain pre1 stA where r: "r = (pre1, stA)" by (cases r)
    with Inr have A: "check_fields_loop st i pre = Inr (pre1, stA)" by simp
    from loop_no_primary_result[OF pre' A]
    have stA: "ls_primary_field_name stA = ls_primary_field_name st" by simp
    from loop_partition_name[OF _ A, of n] pre
    have pkA: "(ls_partition_key_field_name stA = PStr n) = (ls_partition_key_field_name st = PStr n)"
      by simp
    from loop_length[OF A] have lpre1: "length pre1 = p" by (simp add: lpre)
    let ?g = "flagged stA f"
    have g: "?g = f\<lparr>is_primary := True,
                 is_partition_key := is_partition_key f \<or> ls_partition_key_field_name st = PStr n\<rparr>"
      using nf pkA by (simp add: flagged_def)
    have gp: "is_primary ?g" "name ?g = n" using nf by (simp_all add: flagged_def)
    have post': "\<forall>h\<in>set post. \<not> is_primary h
          \<and> ls_primary_field_name (step_state stA (i + p) ?g) \<noteq> PStr (name h)"
      using post gp by auto
    have whole: "check_fields_loop st i fs =
       (case check_fields_loop stA (i + p) (f # post) of
             Inl e \<Rightarrow> Inl e
           | Inr (ys', st2) \<Rightarrow> Inr (pre1 @ ys', st2))"
      by (simp add: fs loop_append A lpre)
    obtain r2 where r2: "check_fields_loop stA (i + p) (f # post) = r2" by simp
    from r2 show ?thesis
    proof (cases rule: loop_Cons_cases)
      case primary
      with hint' stA nf show ?thesis by auto
    next
      case partition
      with whole r2 show ?thesis by simp
    next
      case (later e)
      from loop_no_primary_error[OF post' later(1)] later(2) whole r2 show ?thesis by simp
    next
      case (finished rest' st')
      from loop_no_primary_result[OF post' finished(1)] gp
      have "ls_primary_field st' = Some (i + p)" by simp
      moreover from loop_length[OF finished(1)]
      have "length (pre1 @ ?g # rest') = length fs" by (simp add: fs lpre lpre1)
      moreover have "(pre1 @ ?g # rest') ! p = ?g" using lpre1 by (simp add: nth_append)
      ultimately show ?thesis
        using whole r2 finished(2) g by (simp add: f_def n_def)
    qed
  qed
qed

lemma init_checked:
  assumes "type_params_apart E" "list_all (field_ok E) flds"
    "truthy (dict_get kw ''check_fields'' (PBool True))" "hints_well_typed kw"
  shows "CollectionSchema_init E flds descr kw =
          check_fields \<lparr> cs_fields = map reloaded flds, cs_description = descr, cs_kwargs = kw,
                     cs_enable_dynamic_field = dict_get kw ''enable_dynamic_field'' (PBool False),
                     cs_primary_field = None, cs_partition_key_field = None \<rparr>"
proof -
  have "check_kwargs \<lparr> cs_fields = map reloaded flds, cs_description = descr, cs_kwargs = kw,
                     cs_enable_dynamic_field = dict_get kw ''enable_dynamic_field'' (PBool False),
                     cs_primary_field = None, cs_partition_key_field = None \<rparr> = Inr ()"
    using assms(4) by (simp add: check_kwargs_iff)
  then show ?thesis
    using assms(3) deepcopy_fields_ok[OF assms(1,2)]
    by (simp add: CollectionSchema_init_def Let_def)
qed

lemma to_dict_reloaded_flags:
  "to_dict ((reloaded f)\<lparr>is_primary := a, is_partition_key := b, auto_id := c\<rparr>)
     = to_dict (f\<lparr>is_primary := a, is_partition_key := b, auto_id := c\<rparr>)"
  by (simp add: to_dict_def reloaded_def)

lemma example_more_fields_ok:
  "field_ok example_collab example_part_a" "field_ok example_collab example_part_b"
  "field_ok example_collab example_other_key"
  by (simp_all add: field_ok_def example_part_a_def example_part_b_def example_other_key_def
      plain_field_def)

text \<open>
  Claim C3, as amended. Take fields that are constructed \<open>FieldSchema\<close> objects,
  \<open>check_fields\<close> enabled and hints of the right types.
  With no field flagged primary and no \<open>primary_field\<close> hint naming a field, the
  construction fails: with \<open>PrimaryKeyException\<close> (no primary key), unless the loop meets
  a partition-key conflict first and raises \<open>PartitionKeyException\<close>.
  With two fields flagged primary under different names it fails with
  \<open>PrimaryKeyException\<close> or, on an earlier partition-key conflict,
  \<open>PartitionKeyException\<close>.
  With exactly one field flagged primary, of type \<open>INT64\<close> or \<open>VARCHAR\<close>, no other field
  of its name, and a \<open>primary_field\<close> hint that is absent or names it, the construction
  succeeds unless the partition-key checks raise \<open>PartitionKeyException\<close>, and
  \<open>primary_field\<close> is the copy of that field, at its position, carrying the flags the
  hints set.
  When the schema declares no partition key, the partition-key alternative never occurs.
\<close>

theorem C3_primary_key:
  assumes ap: "type_params_apart E" and ok: "list_all (field_ok E) flds"
    and chk: "truthy (dict_get kw ''check_fields'' (PBool True))"
    and hwt: "hints_well_typed kw"
  shows
    "((\<forall>f\<in>set flds. \<not> is_primary f \<and> dict_get kw ''primary_field'' PNone \<noteq> PStr (name f)) \<longrightarrow>
        (CollectionSchema_init E flds descr kw = Inl (PrimaryKeyException PrimaryKeyNotExist)
         \<or> is_PartitionKeyError (CollectionSchema_init E flds descr kw))
        \<and> (no_partition_key flds kw \<longrightarrow>
             CollectionSchema_init E flds descr kw = Inl (PrimaryKeyException PrimaryKeyNotExist)))
     \<and> ((\<exists>f\<in>set flds. \<exists>g\<in>set flds. is_primary f \<and> is_primary g \<and> name f \<noteq> name g) \<longrightarrow>
        (is_PrimaryKeyError (CollectionSchema_init E flds descr kw)
         \<or> is_PartitionKeyError (CollectionSchema_init E flds descr kw))
        \<and> (no_partition_key flds kw \<longrightarrow>
             is_PrimaryKeyError (CollectionSchema_init E flds descr kw)))
     \<and> (p < length flds \<and> is_primary (flds ! p) \<and> dtype (flds ! p) \<in> {INT64, VARCHAR}
          \<and> (\<forall>k<length flds. k \<noteq> p \<longrightarrow>
                 \<not> is_primary (flds ! k) \<and> name (flds ! k) \<noteq> name (flds ! p))
          \<and> (dict_get kw ''primary_field'' PNone = PNone
               \<or> dict_get kw ''primary_field'' PNone = PStr (name (flds ! p))) \<longrightarrow>
        (is_PartitionKeyError (CollectionSchema_init E flds descr kw)
         \<or> (\<exists>s g. CollectionSchema_init E flds descr kw = Inr s \<and> cs_primary_field s = Some p
                \<and> primary_field s = Some g \<and> FieldSchema_eq g (hinted kw (flds ! p))))
        \<and> (no_partition_key flds kw \<longrightarrow>
             (\<exists>s g. CollectionSchema_init E flds descr kw = Inr s \<and> cs_primary_field s = Some p
                \<and> primary_field s = Some g \<and> FieldSchema_eq g (hinted kw (flds ! p)))))"
proof -
  define fs0 where "fs0 = map reloaded flds"
  define s0 where "s0 = \<lparr> cs_fields = fs0, cs_description = descr, cs_kwargs = kw,
                     cs_enable_dynamic_field = dict_get kw ''enable_dynamic_field'' (PBool False),
                     cs_primary_field = None, cs_partition_key_field = None \<rparr>"
  define st0 where "st0 = \<lparr> ls_primary_field_name = dict_get kw ''primary_field'' PNone,
         ls_partition_key_field_name = dict_get kw ''partition_key_field'' PNone,
         ls_primary_field = None, ls_partition_key_field = None \<rparr>"
  define r where "r = CollectionSchema_init E flds descr kw"
  have r: "r = check_fields s0"
    unfolding r_def s0_def fs0_def by (rule init_checked[OF ap ok chk hwt])
  have fresh: "cs_primary_field s0 = None" "cs_partition_key_field s0 = None"
    and s0: "cs_fields s0 = fs0" "cs_kwargs s0 = kw"
    by (simp_all add: s0_def)
  note after = check_fields_after_loop[OF fresh s0 st0_def]
  note fails = check_fields_loop_fails[OF fresh s0 st0_def]
  have st0_sel: "ls_primary_field_name st0 = dict_get kw ''primary_field'' PNone"
    "ls_partition_key_field_name st0 = dict_get kw ''partition_key_field'' PNone"
    "ls_primary_field st0 = None" "ls_partition_key_field st0 = None"
    by (simp_all add: st0_def)
  have sel0: "name (fs0 ! k) = name (flds ! k)" "is_primary (fs0 ! k) = is_primary (flds ! k)"
    "dtype (fs0 ! k) = dtype (flds ! k)" "is_partition_key (fs0 ! k) = is_partition_key (flds ! k)"
    if "k < length flds" for k
    using that by (simp_all add: fs0_def reloaded_sel)
  have len0: "length fs0 = length flds" by (simp add: fs0_def)
  (* Without a partition key the loop raises no partition-key error. *)
  have nopk_err: "is_PrimaryKeyError (Inl e :: error + unit)"
    if "no_partition_key flds kw" "check_fields_loop st0 0 fs0 = Inl e" for e
  proof -
    from that(1) have "\<forall>f\<in>set fs0. \<not> is_partition_key f"
      by (auto simp: no_partition_key_def fs0_def list_all_iff reloaded_sel)
    moreover from that(1) have "ls_partition_key_field_name st0 = PNone"
      by (simp add: no_partition_key_def st0_sel)
    ultimately show ?thesis using that(2) by (rule loop_no_partition_error)
  qed
  have nopk_res: "ls_partition_key_field st' = None \<and> ls_partition_key_field_name st' = PNone"
    if "no_partition_key flds kw" "check_fields_loop st0 0 fs0 = Inr (fs', st')" for fs' st'
  proof -
    from that(1) have "\<forall>f\<in>set fs0. \<not> is_partition_key f"
      by (auto simp: no_partition_key_def fs0_def list_all_iff reloaded_sel)
    moreover from that(1) have "ls_partition_key_field_name st0 = PNone"
      by (simp add: no_partition_key_def st0_sel)
    ultimately show ?thesis using loop_no_partition_result[OF _ _ that(2)] st0_sel by simp
  qed
  have both: False if "is_PrimaryKeyError (Inl e :: error + unit)"
    "is_PartitionKeyError (Inl e :: error + unit)" for e
    using that by (cases e) simp_all
  (* No primary field. *)
  have partA: "(r = Inl (PrimaryKeyException PrimaryKeyNotExist) \<or> is_PartitionKeyError r)
        \<and> (no_partition_key flds kw \<longrightarrow> r = Inl (PrimaryKeyException PrimaryKeyNotExist))"
    if a: "\<forall>f\<in>set flds. \<not> is_primary f \<and> dict_get kw ''primary_field'' PNone \<noteq> PStr (name f)"
  proof -
    from a have a0: "\<forall>f\<in>set fs0. \<not> is_primary f \<and> ls_primary_field_name st0 \<noteq> PStr (name f)"
      by (auto simp: fs0_def st0_sel reloaded_sel)
    show ?thesis
    proof (cases "check_fields_loop st0 0 fs0")
      case (Inl e)
      from loop_no_primary_error[OF a0 Inl] have pe: "is_PartitionKeyError (Inl e :: error + unit)" .
      then have "is_PartitionKeyError r"
        using fails[OF Inl] by (simp add: r is_PartitionKeyError_Inl)
      moreover have "\<not> no_partition_key flds kw" using nopk_err[OF _ Inl] pe both by blast
      ultimately show ?thesis by simp
    next
      case (Inr x)
      obtain fs1 st1 where x: "x = (fs1, st1)" by (cases x)
      with Inr have loop: "check_fields_loop st0 0 fs0 = Inr (fs1, st1)" by simp
      from loop_no_primary_result[OF a0 loop] have "ls_primary_field st1 = None"
        by (simp add: st0_sel)
      with after[OF loop] show ?thesis by (simp add: r)
    qed
  qed
  (* Two primary fields of different names. *)
  have partB: "(is_PrimaryKeyError r \<or> is_PartitionKeyError r)
        \<and> (no_partition_key flds kw \<longrightarrow> is_PrimaryKeyError r)"
    if b: "\<exists>f\<in>set flds. \<exists>g\<in>set flds. is_primary f \<and> is_primary g \<and> name f \<noteq> name g"
  proof -
    from b obtain f g where "f \<in> set flds" "g \<in> set flds" "is_primary f" "is_primary g"
      "name f \<noteq> name g" by blast
    then have "reloaded f \<in> set fs0" "reloaded g \<in> set fs0" "is_primary (reloaded f)"
      "is_primary (reloaded g)" "name (reloaded f) \<noteq> name (reloaded g)"
      by (simp_all add: fs0_def reloaded_sel)
    from loop_two_primaries[OF this] obtain e where e: "check_fields_loop st0 0 fs0 = Inl e"
      by blast
    from fails[OF e] have re: "r = Inl e" by (simp add: r)
    from loop_errors[OF e] have "is_PrimaryKeyError r \<or> is_PartitionKeyError r"
      by (simp add: re is_PrimaryKeyError_Inl is_PartitionKeyError_Inl)
    moreover have "is_PrimaryKeyError r" if "no_partition_key flds kw"
      using nopk_err[OF that e] by (simp add: re is_PrimaryKeyError_Inl)
    ultimately show ?thesis by blast
  qed
  (* One primary field. *)
  have partC: "(is_PartitionKeyError r
         \<or> (\<exists>s g. r = Inr s \<and> cs_primary_field s = Some p
                \<and> primary_field s = Some g \<and> FieldSchema_eq g (hinted kw (flds ! p))))
        \<and> (no_partition_key flds kw \<longrightarrow>
             (\<exists>s g. r = Inr s \<and> cs_primary_field s = Some p
                \<and> primary_field s = Some g \<and> FieldSchema_eq g (hinted kw (flds ! p))))"
    if c: "p < length flds \<and> is_primary (flds ! p) \<and> dtype (flds ! p) \<in> {INT64, VARCHAR}
          \<and> (\<forall>k<length flds. k \<noteq> p \<longrightarrow>
                 \<not> is_primary (flds ! k) \<and> name (flds ! k) \<noteq> name (flds ! p))
          \<and> (dict_get kw ''primary_field'' PNone = PNone
               \<or> dict_get kw ''primary_field'' PNone = PStr (name (flds ! p)))"
  proof -
    from c have p: "p < length flds" and dt: "dtype (flds ! p) \<in> {INT64, VARCHAR}" by simp_all
    from c have c1: "p < length fs0" "is_primary (fs0 ! p)"
      and c2: "\<forall>k<length fs0. k \<noteq> p \<longrightarrow> \<not> is_primary (fs0 ! k) \<and> name (fs0 ! k) \<noteq> name (fs0 ! p)"
      and c3: "ls_primary_field_name st0 = PNone \<or> ls_primary_field_name st0 = PStr (name (fs0 ! p))"
      by (simp_all add: len0 sel0 st0_sel)
    note one = loop_one_primary[OF c1 c2 c3, of 0]
    have main: "is_PartitionKeyError r
         \<or> (\<exists>s g. r = Inr s \<and> cs_primary_field s = Some p
                \<and> primary_field s = Some g \<and> FieldSchema_eq g (hinted kw (flds ! p)))"
    proof (cases "check_fields_loop st0 0 fs0")
      case (Inl e)
      with one have "is_PartitionKeyError (Inl e :: error + unit)" by blast
      then show ?thesis using fails[OF Inl] by (simp add: r is_PartitionKeyError_Inl)
    next
      case (Inr x)
      obtain fs1 st1 where x: "x = (fs1, st1)" by (cases x)
      with Inr have loop: "check_fields_loop st0 0 fs0 = Inr (fs1, st1)" by simp
      with one have idx: "ls_primary_field st1 = Some p" and len1: "length fs1 = length fs0"
        and g: "fs1 ! p = (fs0 ! p)\<lparr>is_primary := True,
                 is_partition_key := is_partition_key (fs0 ! p)
                    \<or> ls_partition_key_field_name st0 = PStr (name (fs0 ! p))\<rparr>"
        by simp_all
      have dt1: "dtype (fs1 ! p) \<in> {INT64, VARCHAR}"
        using dt p by (simp add: g sel0 del: insert_iff)
      show ?thesis
      proof (cases "validate_partition_key (ls_partition_key_field_name st1)
                       (map_option ((!) fs1) (ls_partition_key_field st1)) (name (fs1 ! p))")
        case (Inl e)
        from validate_partition_key_error[OF Inl] after[OF loop] idx dt1 Inl
        show ?thesis by (auto simp: r)
      next
        case (Inr u)
        define s where "s = s0\<lparr>cs_fields :=
                              (if truthy (dict_get kw ''auto_id'' (PBool False))
                               then fs1[p := (fs1 ! p)\<lparr>auto_id := True\<rparr>] else fs1),
                            cs_primary_field := Some p,
                            cs_partition_key_field := ls_partition_key_field st1\<rparr>"
        from after[OF loop] idx dt1 Inr have rs: "r = Inr s" by (simp add: r s_def)
        have ps: "cs_primary_field s = Some p" by (simp add: s_def)
        have pf: "primary_field s = Some (cs_fields s ! p)" by (simp add: primary_field_def ps)
        have p1: "p < length fs1" using c1 len1 by simp
        have "cs_fields s ! p =
                (reloaded (flds ! p))\<lparr>is_primary := True,
                   is_partition_key := is_partition_key (flds ! p)
                      \<or> dict_get kw ''partition_key_field'' PNone = PStr (name (flds ! p)),
                   auto_id := auto_id (flds ! p) \<or> truthy (dict_get kw ''auto_id'' (PBool False))\<rparr>"
          using p p1 by (simp add: s_def g sel0 st0_sel fs0_def reloaded_sel)
        moreover have "hinted kw (flds ! p) =
                (flds ! p)\<lparr>is_primary := True,
                   is_partition_key := is_partition_key (flds ! p)
                      \<or> dict_get kw ''partition_key_field'' PNone = PStr (name (flds ! p)),
                   auto_id := auto_id (flds ! p) \<or> truthy (dict_get kw ''auto_id'' (PBool False))\<rparr>"
          using c by (cases "flds ! p") (simp add: hinted_def)
        ultimately have "FieldSchema_eq (cs_fields s ! p) (hinted kw (flds ! p))"
          by (simp add: FieldSchema_eq_def to_dict_reloaded_flags)
        with rs ps pf show ?thesis by blast
      qed
    qed
    have "\<not> is_PartitionKeyError r" if npk: "no_partition_key flds kw"
    proof (cases "check_fields_loop st0 0 fs0")
      case (Inl e)
      with one have "is_PartitionKeyError (Inl e :: error + unit)" by blast
      with nopk_err[OF npk Inl] both show ?thesis by blast
    next
      case (Inr x)
      obtain fs1 st1 where x: "x = (fs1, st1)" by (cases x)
      with Inr have loop: "check_fields_loop st0 0 fs0 = Inr (fs1, st1)" by simp
      from nopk_res[OF npk loop] have "validate_partition_key (ls_partition_key_field_name st1)
                       (map_option ((!) fs1) (ls_partition_key_field st1)) n = Inr ()" for n
        by (simp add: validate_partition_key_def)
      with after[OF loop] show ?thesis
        by (auto simp: r is_PartitionKeyError_Inl split: option.splits if_splits)
    qed
    with main show ?thesis by blast
  qed
  from partA partB partC show ?thesis unfolding r_def by blast
qed

theorem C3_primary_key_witness:
  "CollectionSchema_init example_collab [example_vec] [] Map.empty
     = Inl (PrimaryKeyException PrimaryKeyNotExist)
   \<and> is_PrimaryKeyError
       (CollectionSchema_init example_collab [example_id, example_other_key] [] Map.empty)
   \<and> (\<exists>s g. CollectionSchema_init example_collab [example_id, example_vec] [] Map.empty = Inr s
          \<and> cs_primary_field s = Some 0 \<and> primary_field s = Some g
          \<and> FieldSchema_eq g (hinted Map.empty example_id))"
proof -
  have h: "truthy (dict_get Map.empty ''check_fields'' (PBool True))"
    "hints_well_typed Map.empty"
    by (simp_all add: dict_get_def hints_well_typed_def)
  have sel: "\<not> is_primary example_vec" "is_primary example_id" "is_primary example_other_key"
    "name example_vec = ''vec''" "name example_id = ''id''" "name example_other_key = ''k''"
    "dtype example_id = INT64"
    "\<not> is_partition_key example_vec" "\<not> is_partition_key example_id"
    "\<not> is_partition_key example_other_key"
    by (simp_all add: example_vec_def example_id_def example_other_key_def plain_field_def)
  have ok: "list_all (field_ok example_collab) [example_vec]"
    "list_all (field_ok example_collab) [example_id, example_other_key]"
    "list_all (field_ok example_collab) [example_id, example_vec]"
    using example_fields_ok example_more_fields_ok by simp_all
  from C3_primary_key [OF example_collab_apart ok(1) h, where descr = "[]" and p = 0]
       C3_primary_key [OF example_collab_apart ok(2) h, where descr = "[]" and p = 0]
       C3_primary_key [OF example_collab_apart ok(3) h, where descr = "[]" and p = 0]
  show ?thesis
    by (simp add: sel dict_get_def no_partition_key_def All_less_Suc)
qed

text \<open>
  Claim C3 as the spec states it fails: no field is flagged primary and there is no
  hint, yet the error is a \<open>PartitionKeyException\<close>, raised by the loop for the two
  partition-key fields before the primary key is looked for.
\<close>

theorem C3_partition_conflict_counterexample:
  "CollectionSchema_init example_collab [example_part_a, example_part_b] [] Map.empty
     = Inl (PartitionKeyException (PartitionKeyOnlyOne (PStr ''a'') ''b''))
   \<and> \<not> is_PrimaryKeyError
         (CollectionSchema_init example_collab [example_part_a, example_part_b] [] Map.empty)"
proof -
  have dc: "deepcopy_fields example_collab [example_part_a, example_part_b]
          = Inr [reloaded example_part_a, reloaded example_part_b]"
    using deepcopy_fields_ok[OF example_collab_apart, of "[example_part_a, example_part_b]"]
      example_more_fields_ok by simp
  have sel: "\<not> is_primary (reloaded example_part_a)" "is_partition_key (reloaded example_part_a)"
    "\<not> is_primary (reloaded example_part_b)" "is_partition_key (reloaded example_part_b)"
    "name (reloaded example_part_a) = ''a''" "name (reloaded example_part_b) = ''b''"
    by (simp_all add: reloaded_def example_part_a_def example_part_b_def plain_field_def)
  have "CollectionSchema_init example_collab [example_part_a, example_part_b] [] Map.empty
     = Inl (PartitionKeyException (PartitionKeyOnlyOne (PStr ''a'') ''b''))"
    unfolding CollectionSchema_init_def dc
    by (simp add: check_kwargs_def dict_get_def check_fields_def Let_def sel)
  then show ?thesis by simp
qed

subsection \<open>Field inference from a list of columns\<close>














subsection \<open>Column preparation for a frame\<close>

lemma first_row_nonempty:
  "\<forall>c\<in>set df. col_values c \<noteq> [] \<Longrightarrow> first_row df = Inr (map (\<lambda>c. col_values c ! 0) df)"
proof (induction df)
  case Nil
  then show ?case by simp
next
  case (Cons c df)
  then obtain v vs where "col_values c = v # vs" by (cases "col_values c") auto
  with Cons show ?case by simp
qed

lemma wf_nonempty:
  "wf_dataframe df \<Longrightarrow> df_len df \<noteq> 0 \<Longrightarrow> \<forall>c\<in>set df. col_values c \<noteq> []"
  by (auto simp: wf_dataframe_def list_all_iff)

text \<open>The types the sampling loop returns.\<close>

lemma sample_columns_types:
  assumes "sized_vectors E" "length names = length vs" "length vs = length dts"
  shows "\<exists>pm'. sample_columns E names vs dts pm =
           Inr (map (\<lambda>(v, dt). if dt = UNKNOWN then infer_dtype_bydata E v else dt) (zip vs dts),
                pm')"
  using assms(2,3)
proof (induction names vs dts arbitrary: pm rule: list_induct3)
  case Nil
  then show ?case by simp
next
  case (Cons n names v vs dt dts)
  show ?case
  proof (cases "dt = UNKNOWN \<and> infer_dtype_bydata E v \<in> {BINARY_VECTOR, FLOAT_VECTOR}")
    case True
    with assms(1) obtain k where k: "py_len v = Inr k" by (auto simp: sized_vectors_def)
    define pm1 where "pm1 = pm(n \<mapsto> (if infer_dtype_bydata E v = BINARY_VECTOR
                                 then [''dim'' \<mapsto> PInt (int k * 8)]
                                 else [''dim'' \<mapsto> PInt (int k)]))"
    from Cons.IH[of pm1] obtain pm' where
      "sample_columns E names vs dts pm1 =
           Inr (map (\<lambda>(v, dt). if dt = UNKNOWN then infer_dtype_bydata E v else dt) (zip vs dts),
                pm')" by blast
    with True k show ?thesis by (auto simp: Let_def pm1_def)
  next
    case False
    from Cons.IH[of pm] obtain pm' where
      "sample_columns E names vs dts pm =
           Inr (map (\<lambda>(v, dt). if dt = UNKNOWN then infer_dtype_bydata E v else dt) (zip vs dts),
                pm')" by blast
    with False show ?thesis by (auto simp: Let_def)
  qed
qed

text \<open>The loop stores parameters under the labels it visits only.\<close>

lemma sample_columns_other:
  assumes "sample_columns E names vs dts pm = Inr (dts', pm')" "n \<notin> set names"
  shows "pm' n = pm n"
  using assms
proof (induction E names vs dts pm arbitrary: dts' pm' rule: sample_columns.induct)
  case (1 E col cols v vs dt dts column_params_map)
  from "1.prems"(2) have nc: "n \<noteq> col" "n \<notin> set cols" by simp_all
  show ?case
  proof (cases "dt = UNKNOWN")
    case False
    with "1.prems"(1) obtain d2 where "sample_columns E cols vs dts column_params_map = Inr (d2, pm')"
      by (auto split: sum.splits)
    from "1.IH"(3)[OF False this nc(2)] show ?thesis .
  next
    case True
    show ?thesis
    proof (cases "infer_dtype_bydata E v \<in> {BINARY_VECTOR, FLOAT_VECTOR}")
      case False
      with True "1.prems"(1) obtain d2 where
        "sample_columns E cols vs dts column_params_map = Inr (d2, pm')"
        by (auto simp: Let_def split: sum.splits)
      from "1.IH"(2)[OF True refl False this nc(2)] show ?thesis .
    next
      case vec: True
      with True "1.prems"(1) obtain k d2 where k: "py_len v = Inr k"
        and r: "sample_columns E cols vs dts
                  (column_params_map(col \<mapsto> (if infer_dtype_bydata E v = BINARY_VECTOR
                                 then [''dim'' \<mapsto> PInt (int k * 8)]
                                 else [''dim'' \<mapsto> PInt (int k)]))) = Inr (d2, pm')"
        by (auto simp: Let_def split: sum.splits if_splits)
      from "1.IH"(1)[OF True refl vec k refl r nc(2)] nc(1) show ?thesis by simp
    qed
  qed
qed simp_all

text \<open>Under distinct labels a sampled vector column finds its \<open>dim\<close> under its label.\<close>

lemma sample_columns_params:
  assumes "sample_columns E names vs dts pm = Inr (dts', pm')" "distinct names"
    "i < length names" "i < length vs" "i < length dts" "dts ! i = UNKNOWN"
  shows "(infer_dtype_bydata E (vs ! i) = BINARY_VECTOR \<longrightarrow>
            (\<exists>k. py_len (vs ! i) = Inr k \<and> pm' (names ! i) = Some [''dim'' \<mapsto> PInt (int k * 8)]))
       \<and> (infer_dtype_bydata E (vs ! i) = FLOAT_VECTOR \<longrightarrow>
            (\<exists>k. py_len (vs ! i) = Inr k \<and> pm' (names ! i) = Some [''dim'' \<mapsto> PInt (int k)]))"
  using assms
proof (induction E names vs dts pm arbitrary: dts' pm' i rule: sample_columns.induct)
  case (1 E col cols v vs dt dts column_params_map)
  from "1.prems"(2) have dist: "col \<notin> set cols" "distinct cols" by simp_all
  show ?case
  proof (cases i)
    case 0
    with "1.prems"(6) have dt: "dt = UNKNOWN" by simp
    show ?thesis
    proof (cases "infer_dtype_bydata E v \<in> {BINARY_VECTOR, FLOAT_VECTOR}")
      case False
      with 0 show ?thesis by simp
    next
      case vec: True
      with dt "1.prems"(1) obtain k d2 where k: "py_len v = Inr k"
        and r: "sample_columns E cols vs dts
                  (column_params_map(col \<mapsto> (if infer_dtype_bydata E v = BINARY_VECTOR
                                 then [''dim'' \<mapsto> PInt (int k * 8)]
                                 else [''dim'' \<mapsto> PInt (int k)]))) = Inr (d2, pm')"
        by (auto simp: Let_def split: sum.splits if_splits)
      from sample_columns_other[OF r dist(1)] k vec 0 show ?thesis by auto
    qed
  next
    case (Suc j)
    with "1.prems" have j: "j < length cols" "j < length vs" "j < length dts" "dts ! j = UNKNOWN"
      by simp_all
    show ?thesis
    proof (cases "dt = UNKNOWN")
      case False
      with "1.prems"(1) obtain d2 where
        r: "sample_columns E cols vs dts column_params_map = Inr (d2, pm')"
        by (auto split: sum.splits)
      from "1.IH"(3)[OF False r dist(2) j] Suc show ?thesis by simp
    next
      case True
      show ?thesis
      proof (cases "infer_dtype_bydata E v \<in> {BINARY_VECTOR, FLOAT_VECTOR}")
        case False
        with True "1.prems"(1) obtain d2 where
          r: "sample_columns E cols vs dts column_params_map = Inr (d2, pm')"
          by (auto simp: Let_def split: sum.splits)
        from "1.IH"(2)[OF True refl False r dist(2) j] Suc show ?thesis by simp
      next
        case vec: True
        with True "1.prems"(1) obtain k d2 where k: "py_len v = Inr k"
          and r: "sample_columns E cols vs dts
                  (column_params_map(col \<mapsto> (if infer_dtype_bydata E v = BINARY_VECTOR
                                 then [''dim'' \<mapsto> PInt (int k * 8)]
                                 else [''dim'' \<mapsto> PInt (int k)]))) = Inr (d2, pm')"
          by (auto simp: Let_def split: sum.splits if_splits)
        from "1.IH"(1)[OF True refl vec k refl r dist(2) j] Suc show ?thesis by simp
      qed
    qed
  qed
qed simp_all

lemma example_collab_sized: "sized_vectors example_collab"
  unfolding sized_vectors_def
proof (intro allI impI)
  fix v
  assume "infer_dtype_bydata example_collab v \<in> {BINARY_VECTOR, FLOAT_VECTOR}"
  then have "example_infer v \<in> {BINARY_VECTOR, FLOAT_VECTOR}" by (simp add: example_collab_def)
  then show "\<exists>n. py_len v = Inr n"
    by (cases v rule: example_infer.cases) auto
qed

text \<open>
  Claim C5. For a frame (all columns of one length) and an \<open>infer_dtype_bydata\<close> that
  takes for vectors only values with a length: the preparation fails with
  \<open>CannotInferSchemaException\<close> exactly when some column's mapped type is \<open>UNKNOWN\<close> and
  the frame is empty or some such column still infers to \<open>UNKNOWN\<close> from the first row.
  Otherwise it returns the labels, for every column its mapped type or, where that is
  \<open>UNKNOWN\<close>, the type inferred from the first row's value, and the type parameters:
  with distinct labels, a sampled column of binary-vector type has \<open>dim\<close> equal to the
  length of the value times 8 under its label, one of float-vector type the length.
\<close>

theorem C5_prepare_fields_from_dataframe:
  assumes wf: "wf_dataframe df" and sized: "sized_vectors E"
  shows "(cannot_infer E df \<longrightarrow>
            prepare_fields_from_dataframe E df = Inl (CannotInferSchemaException DataFrameInvalid))
       \<and> (\<not> cannot_infer E df \<longrightarrow>
            (\<exists>pm. prepare_fields_from_dataframe E df
                     = Inr (map col_name df, map (sampled_dtype E) df, pm)
                \<and> (distinct (map col_name df) \<longrightarrow>
                    (\<forall>c\<in>set df. mapped_dtype E c = UNKNOWN \<longrightarrow>
                       (infer_dtype_bydata E (col_values c ! 0) = BINARY_VECTOR \<longrightarrow>
                          (\<exists>k. py_len (col_values c ! 0) = Inr k
                             \<and> pm (col_name c) = Some [''dim'' \<mapsto> PInt (int k * 8)]))
                     \<and> (infer_dtype_bydata E (col_values c ! 0) = FLOAT_VECTOR \<longrightarrow>
                          (\<exists>k. py_len (col_values c ! 0) = Inr k
                             \<and> pm (col_name c) = Some [''dim'' \<mapsto> PInt (int k)]))))))"
proof (cases "UNKNOWN \<in> set (map (mapped_dtype E) df)")
  case False
  then have nc: "\<not> cannot_infer E df" by (simp add: cannot_infer_def)
  from False have known: "\<forall>c\<in>set df. mapped_dtype E c \<noteq> UNKNOWN"
    by (metis image_eqI set_map)
  then have same: "map (sampled_dtype E) df = map (mapped_dtype E) df"
    by (simp add: sampled_dtype_def)
  have m: "map (map_numpy_dtype_to_datatype E) (map col_dtype df) = map (mapped_dtype E) df"
    by (simp add: mapped_dtype_def comp_def)
  from False have "prepare_fields_from_dataframe E df
                     = Inr (map col_name df, map (sampled_dtype E) df, Map.empty)"
    unfolding prepare_fields_from_dataframe_def Let_def m by (simp add: same)
  then show ?thesis using nc known by auto
next
  case True
  have m: "map (map_numpy_dtype_to_datatype E) (map col_dtype df) = map (mapped_dtype E) df"
    by (simp add: mapped_dtype_def comp_def)
  show ?thesis
  proof (cases "df_len df = 0")
    case z: True
    with True have "cannot_infer E df" by (simp add: cannot_infer_def)
    moreover from True z have "prepare_fields_from_dataframe E df
                     = Inl (CannotInferSchemaException DataFrameInvalid)"
      unfolding prepare_fields_from_dataframe_def Let_def m by simp
    ultimately show ?thesis by simp
  next
    case nz: False
    let ?vs = "map (\<lambda>c. col_values c ! 0) df"
    let ?dts = "map (mapped_dtype E) df"
    have fr: "first_row df = Inr ?vs"
      using first_row_nonempty[OF wf_nonempty[OF wf nz]] .
    from sample_columns_types[OF sized, of "map col_name df" ?vs ?dts Map.empty]
    obtain pm where sc: "sample_columns E (map col_name df) ?vs ?dts Map.empty =
           Inr (map (\<lambda>(v, dt). if dt = UNKNOWN then infer_dtype_bydata E v else dt)
                  (zip ?vs ?dts), pm)"
      by auto
    have types: "map (\<lambda>(v, dt). if dt = UNKNOWN then infer_dtype_bydata E v else dt)
                  (zip ?vs ?dts) = map (sampled_dtype E) df"
      by (simp add: zip_map_map sampled_dtype_def comp_def zip_same_conv_map)
    have prep: "prepare_fields_from_dataframe E df =
            (if UNKNOWN \<in> set (map (sampled_dtype E) df)
             then Inl (CannotInferSchemaException DataFrameInvalid)
             else Inr (map col_name df, map (sampled_dtype E) df, pm))"
      using True nz
      unfolding prepare_fields_from_dataframe_def Let_def m fr
      by (simp add: sc[unfolded types])
    have sd: "(sampled_dtype E c = UNKNOWN)
                = (mapped_dtype E c = UNKNOWN
                   \<and> infer_dtype_bydata E (col_values c ! 0) = UNKNOWN)" for c
      by (simp add: sampled_dtype_def)
    have "(UNKNOWN \<in> set (map (sampled_dtype E) df)) = (\<exists>c\<in>set df. sampled_dtype E c = UNKNOWN)"
      by (simp add: image_iff) metis
    then have ci: "cannot_infer E df = (UNKNOWN \<in> set (map (sampled_dtype E) df))"
      using True nz by (simp only: cannot_infer_def sd) simp
    have params: "(infer_dtype_bydata E (col_values c ! 0) = BINARY_VECTOR \<longrightarrow>
                          (\<exists>k. py_len (col_values c ! 0) = Inr k
                             \<and> pm (col_name c) = Some [''dim'' \<mapsto> PInt (int k * 8)]))
                     \<and> (infer_dtype_bydata E (col_values c ! 0) = FLOAT_VECTOR \<longrightarrow>
                          (\<exists>k. py_len (col_values c ! 0) = Inr k
                             \<and> pm (col_name c) = Some [''dim'' \<mapsto> PInt (int k)]))"
      if d: "distinct (map col_name df)" and c: "c \<in> set df" "mapped_dtype E c = UNKNOWN" for c
    proof -
      from c(1) obtain i where i: "i < length df" "df ! i = c" by (auto simp: in_set_conv_nth)
      from sample_columns_params[OF sc d, of i] i c(2) show ?thesis by simp
    qed
    from prep ci params show ?thesis by auto
  qed
qed

theorem C5_prepare_fields_from_dataframe_witness:
  "prepare_fields_from_dataframe example_collab example_empty_frame
     = Inl (CannotInferSchemaException DataFrameInvalid)
   \<and> (\<exists>pm. prepare_fields_from_dataframe example_collab example_frame
              = Inr ([''id'', ''vec'', ''bin''], [INT64, FLOAT_VECTOR, BINARY_VECTOR], pm)
          \<and> pm ''vec'' = Some [''dim'' \<mapsto> PInt 2]
          \<and> pm ''bin'' = Some [''dim'' \<mapsto> PInt 16])"
proof -
  have wf: "wf_dataframe example_empty_frame" "wf_dataframe example_frame"
    by (simp_all add: wf_dataframe_def df_len_def example_empty_frame_def example_frame_def)
  have m: "mapped_dtype example_collab c =
             (if col_dtype c = ''int64'' then INT64 else if col_dtype c = ''float64'' then DOUBLE
              else if col_dtype c = ''bool'' then BOOL else UNKNOWN)" for c
    by (simp add: mapped_dtype_def example_collab_def example_map_numpy_def)
  have i: "infer_dtype_bydata example_collab = example_infer" by (simp add: example_collab_def)
  have c1: "cannot_infer example_collab example_empty_frame"
    by (simp add: cannot_infer_def m df_len_def example_empty_frame_def)
  have c2: "\<not> cannot_infer example_collab example_frame"
    by (simp add: cannot_infer_def m i df_len_def example_frame_def)
  from C5_prepare_fields_from_dataframe [OF wf(1) example_collab_sized] c1
  have a: "prepare_fields_from_dataframe example_collab example_empty_frame
     = Inl (CannotInferSchemaException DataFrameInvalid)" by simp
  from C5_prepare_fields_from_dataframe [OF wf(2) example_collab_sized] c2
  have b: "\<exists>pm. prepare_fields_from_dataframe example_collab example_frame
              = Inr ([''id'', ''vec'', ''bin''], [INT64, FLOAT_VECTOR, BINARY_VECTOR], pm)
          \<and> pm ''vec'' = Some [''dim'' \<mapsto> PInt 2]
          \<and> pm ''bin'' = Some [''dim'' \<mapsto> PInt 16]"
    by (simp add: example_frame_def sampled_dtype_def m i)
  from a b show ?thesis by simp
qed

subsection \<open>The insert-time check\<close>

lemma isnull_all_one:
  assumes "length (filter (\<lambda>c. col_name c = n) df) = 1"
  shows "isnull_all df n = Inr (\<not> holds_data df n)"
proof -
  from assms obtain c where c: "filter (\<lambda>c. col_name c = n) df = [c]"
    by (cases "filter (\<lambda>c. col_name c = n) df") auto
  then have "set (filter (\<lambda>c. col_name c = n) df) = {c}" by simp
  then have iff: "\<And>x. (x \<in> set df \<and> col_name x = n) = (x = c)" by auto
  have "holds_data df n = (\<exists>x. (x \<in> set df \<and> col_name x = n)
                                 \<and> (\<exists>v\<in>set (col_values x). \<not> is_null v))"
    unfolding holds_data_def by blast
  then have "holds_data df n = (\<exists>v\<in>set (col_values c). \<not> is_null v)"
    by (simp only: iff) simp
  then show ?thesis by (simp add: isnull_all_def c list_all_iff)
qed

text \<open>
  Claim C10. Let the schema have a primary field with \<open>auto_id\<close> true and let one column
  of the frame carry the primary field's name. If that column holds a value that is not
  null, \<open>check_insert_schema\<close> raises \<open>DataNotMatchException\<close>. Otherwise it goes on
  with the frame without that column: the result is that of the inference followed by
  the reconciliation on the remaining columns.
\<close>

theorem C10_check_insert_schema:
  assumes pf: "primary_field s = Some pf" and auto: "auto_id pf"
    and one: "length (filter (\<lambda>c. col_name c = name pf) df) = 1"
  shows "(holds_data df (name pf) \<longrightarrow>
            check_insert_schema E (Some s) (DataFrame df)
              = Inl (DataNotMatchException (ExpectNoDataForAutoID (name pf))))
       \<and> (\<not> holds_data df (name pf) \<longrightarrow>
            check_insert_schema E (Some s) (DataFrame df)
              = (case parse_fields_from_data E s
                        (DataFrame (filter (\<lambda>c. col_name c \<noteq> name pf) df)) of
                   Inl e \<Rightarrow> Inl e
                 | Inr (infer_fields, tmp_fields, is_data_frame) \<Rightarrow>
                     check_infer_fields_valid infer_fields tmp_fields is_data_frame))"
proof -
  from one have "filter (\<lambda>c. col_name c = name pf) df \<noteq> []" by auto
  then obtain x where "x \<in> set df" "col_name x = name pf"
    by (auto simp: filter_empty_conv)
  then have mem: "name pf \<in> set (map col_name df)"
    by (metis image_eqI set_map)
  have d: "drop_auto_id_column s (DataFrame df) =
             (if holds_data df (name pf)
              then Inl (DataNotMatchException (ExpectNoDataForAutoID (name pf)))
              else Inr (DataFrame (filter (\<lambda>c. col_name c \<noteq> name pf) df)))"
    using mem auto
    by (simp add: drop_auto_id_column_def CollectionSchema_auto_id_def pf
        isnull_all_one[OF one] drop_column_def)
  show ?thesis by (simp add: check_insert_schema_def d)
qed

theorem C10_check_insert_schema_witness:
  "check_insert_schema example_collab (Some example_schema) (DataFrame example_frame)
     = Inl (DataNotMatchException (ExpectNoDataForAutoID ''id''))
   \<and> check_insert_schema example_collab (Some example_schema) (DataFrame example_null_id_frame)
     = (case parse_fields_from_data example_collab example_schema
               (DataFrame [\<lparr> col_name = ''vec'', col_dtype = ''object'',
                   col_values = [PList [PScalar (SFloat 1), PScalar (SFloat 2)],
                                 PList [PScalar (SFloat 3), PScalar (SFloat 4)]] \<rparr>]) of
          Inl e \<Rightarrow> Inl e
        | Inr (infer_fields, tmp_fields, is_data_frame) \<Rightarrow>
            check_infer_fields_valid infer_fields tmp_fields is_data_frame)"
proof -
  have pf: "primary_field example_schema = Some (reloaded example_id)"
    by (simp add: primary_field_def example_schema_def)
  have sel: "auto_id (reloaded example_id)" "name (reloaded example_id) = ''id''"
    by (simp_all add: reloaded_sel example_id_def plain_field_def)
  have one: "length (filter (\<lambda>c. col_name c = name (reloaded example_id)) example_frame) = 1"
    "length (filter (\<lambda>c. col_name c = name (reloaded example_id)) example_null_id_frame) = 1"
    by (simp_all add: sel example_frame_def example_null_id_frame_def)
  have h: "holds_data example_frame ''id''" "\<not> holds_data example_null_id_frame ''id''"
    by (simp_all add: holds_data_def example_frame_def example_null_id_frame_def)
  from C10_check_insert_schema [OF pf sel(1) one(1), of example_collab]
       C10_check_insert_schema [OF pf sel(1) one(2), of example_collab] h
  show ?thesis by (simp add: sel example_null_id_frame_def)
qed

subsection \<open>FieldSchema: construction and attribute access\<close>

text \<open>
  Claim C8, as amended. A construction with \<open>auto_id=True\<close> and \<open>is_primary\<close> false or
  absent always fails. The type is checked first: when \<open>dtype\<close> is not a member of the
  enumeration, or is \<open>UNKNOWN\<close>, the failure is \<open>DataTypeNotSupportException\<close>; for
  every other type it is \<open>PrimaryKeyException\<close> (auto-id only on the primary key).
\<close>

theorem C8_auto_id_without_primary:
  assumes "kw ''auto_id'' = Some (PBool True)"
    and "kw ''is_primary'' = None \<or> kw ''is_primary'' = Some (PBool False)"
  shows "FieldSchema_init E nm dt descr kw =
           (if dt = NotAMember \<or> dt = Member UNKNOWN
            then Inl (DataTypeNotSupportException FieldDtype)
            else Inl (PrimaryKeyException AutoIDOnlyOnPK))"
  using assms
  by (auto simp: FieldSchema_init_def dict_get_def check_auto_id_def split: dtype_arg.splits)

theorem C8_auto_id_without_primary_witness:
  "FieldSchema_init example_collab ''x'' (Member INT64) ''d'' [''auto_id'' \<mapsto> PBool True]
     = Inl (PrimaryKeyException AutoIDOnlyOnPK)"
  using C8_auto_id_without_primary
          [of "[''auto_id'' \<mapsto> PBool True]" example_collab "''x''" "Member INT64" "''d''"]
  by simp

text \<open>
  Claim C8 as the spec states it fails: \<open>FieldSchema("x", DataType.UNKNOWN, auto_id=True)\<close>
  is rejected for its type, before the flags are looked at.
\<close>

theorem C8_unknown_dtype_counterexample:
  "FieldSchema_init example_collab ''x'' (Member UNKNOWN) [] [''auto_id'' \<mapsto> PBool True]
     = Inl (DataTypeNotSupportException FieldDtype)
   \<and> \<not> is_PrimaryKeyError
         (FieldSchema_init example_collab ''x'' (Member UNKNOWN) [] [''auto_id'' \<mapsto> PBool True])"
  by (simp add: FieldSchema_init_def)

text \<open>
  Claim C9. \<open>__getattr__\<close> serves the names that are not stored attributes. For a name
  that is no key of \<open>type_params\<close> it returns \<open>None\<close> and raises nothing; for a key of
  \<open>type_params\<close> it returns the stored parameter.
\<close>

theorem C9_getattr:
  "(item \<notin> dom (type_params f) \<longrightarrow> FieldSchema_getattr f item = PNone)
   \<and> (\<forall>v. type_params f item = Some v \<longrightarrow> FieldSchema_getattr f item = v)"
  by (auto simp: FieldSchema_getattr_def split: option.splits)

theorem C9_getattr_witness:
  "FieldSchema_getattr ((plain_field ''v'' FLOAT_VECTOR)\<lparr>type_params := [''dim'' \<mapsto> PInt 8]\<rparr>)
     ''max_length'' = PNone
   \<and> FieldSchema_getattr ((plain_field ''v'' FLOAT_VECTOR)\<lparr>type_params := [''dim'' \<mapsto> PInt 8]\<rparr>)
       ''dim'' = PInt 8"
  using C9_getattr [of "''max_length''"
                       "(plain_field ''v'' FLOAT_VECTOR)\<lparr>type_params := [''dim'' \<mapsto> PInt 8]\<rparr>"]
        C9_getattr [of "''dim''"
                       "(plain_field ''v'' FLOAT_VECTOR)\<lparr>type_params := [''dim'' \<mapsto> PInt 8]\<rparr>"]
  by (simp add: plain_field_def)

subsection \<open>The data-shape classifier and the reconciliation checker\<close>

text \<open>
  Claim C7. A frame is column-based, a mapping is row-based, a list is row-based
  exactly when it has a first element and that element is a mapping (so the empty list
  is column-based), and everything else raises \<open>DataTypeNotSupportException\<close>.
\<close>

theorem C7_check_is_row_based:
  "check_is_row_based (DataFrame df) = Inr False
   \<and> check_is_row_based (Py (PDict kvs)) = Inr True
   \<and> check_is_row_based (Py (PList xs)) = Inr (\<exists>kvs rest. xs = PDict kvs # rest)
   \<and> (\<not> (isinstance_DataFrame d \<or> isinstance_list d \<or> isinstance_dict d) \<longrightarrow>
        check_is_row_based d
          = Inl (DataTypeNotSupportException DataShouldBeListOrDataFrameOrDict))"
proof -
  have "check_is_row_based (Py (PList xs)) = Inr (\<exists>kvs rest. xs = PDict kvs # rest)"
  proof (cases xs)
    case Nil
    then show ?thesis by (simp add: check_is_row_based_def)
  next
    case (Cons x rest)
    then show ?thesis by (cases x) (simp_all add: check_is_row_based_def)
  qed
  then show ?thesis by (simp add: check_is_row_based_def)
qed

theorem C7_check_is_row_based_witness:
  "check_is_row_based (Py (PList [])) = Inr False
   \<and> check_is_row_based (Py (PList [PDict []])) = Inr True
   \<and> check_is_row_based (Py (PList [PList []])) = Inr False
   \<and> check_is_row_based (Py (PInt 3))
       = Inl (DataTypeNotSupportException DataShouldBeListOrDataFrameOrDict)"
  using C7_check_is_row_based [of "[]" "[]" "[]" "Py (PInt 3)"]
        C7_check_is_row_based [of "[]" "[]" "[PDict []]" "Py (PInt 3)"]
        C7_check_is_row_based [of "[]" "[]" "[PList []]" "Py (PInt 3)"]
  by simp

lemma check_dtypes_names_iff:
  "length i = length t \<Longrightarrow>
     (if \<exists>k<length t. dtype (i ! k) \<noteq> dtype (t ! k) \<or> (tab \<and> name (i ! k) \<noteq> name (t ! k))
      then is_DataNotMatch (check_dtypes_names i t tab)
      else check_dtypes_names i t tab = Inr ())"
proof (induction i t rule: list_induct2)
  case Nil
  then show ?case by simp
next
  case (Cons x xs y ys)
  show ?case
  proof (cases "dtype x \<noteq> dtype y \<or> (tab \<and> name x \<noteq> name y)")
    case True
    then have "\<exists>k<length (y # ys). dtype ((x # xs) ! k) \<noteq> dtype ((y # ys) ! k)
                 \<or> (tab \<and> name ((x # xs) ! k) \<noteq> name ((y # ys) ! k))"
      by (intro exI[of _ 0]) simp
    with True show ?thesis by auto
  next
    case False
    have "(\<exists>k<length (y # ys). dtype ((x # xs) ! k) \<noteq> dtype ((y # ys) ! k)
              \<or> (tab \<and> name ((x # xs) ! k) \<noteq> name ((y # ys) ! k)))
          = (\<exists>k<length ys. dtype (xs ! k) \<noteq> dtype (ys ! k)
              \<or> (tab \<and> name (xs ! k) \<noteq> name (ys ! k)))"
      using False by (auto simp: less_Suc_eq_0_disj)
    with False Cons.IH show ?thesis by auto
  qed
qed

text \<open>
  Claim C6. Lists of different lengths raise \<open>DataNotMatchException\<close> with the message
  that names the expected and the inferred field names. Lists of equal length raise
  \<open>DataNotMatchException\<close> exactly when some position differs in its type, or differs
  in its name while \<open>is_data_frame\<close> is true; otherwise the check returns nothing.
\<close>

theorem C6_check_infer_fields_valid:
  "(length i \<noteq> length t \<longrightarrow>
      check_infer_fields_valid i t tab
        = Inl (DataNotMatchException (FieldsDontMatch (map name t) (map name i))))
   \<and> (length i = length t \<longrightarrow>
        (if \<exists>k<length t. dtype (i ! k) \<noteq> dtype (t ! k) \<or> (tab \<and> name (i ! k) \<noteq> name (t ! k))
         then is_DataNotMatch (check_infer_fields_valid i t tab)
         else check_infer_fields_valid i t tab = Inr ()))"
  using check_dtypes_names_iff [of i t tab]
  by (simp add: check_infer_fields_valid_def)

theorem C6_check_infer_fields_valid_witness:
  "check_infer_fields_valid [plain_field [] INT64]
       [plain_field ''a'' INT64, plain_field ''b'' DOUBLE] False
     = Inl (DataNotMatchException (FieldsDontMatch [''a'', ''b''] [[]]))
   \<and> check_infer_fields_valid [plain_field [] INT64] [plain_field ''a'' INT64] False = Inr ()
   \<and> is_DataNotMatch
       (check_infer_fields_valid [plain_field [] INT64] [plain_field ''a'' INT64] True)
   \<and> is_DataNotMatch
       (check_infer_fields_valid [plain_field [] DOUBLE] [plain_field ''a'' INT64] False)"
  using C6_check_infer_fields_valid
          [of "[plain_field [] INT64]" "[plain_field ''a'' INT64, plain_field ''b'' DOUBLE]" False]
        C6_check_infer_fields_valid [of "[plain_field [] INT64]" "[plain_field ''a'' INT64]" False]
        C6_check_infer_fields_valid [of "[plain_field [] INT64]" "[plain_field ''a'' INT64]" True]
        C6_check_infer_fields_valid [of "[plain_field [] DOUBLE]" "[plain_field ''a'' INT64]" False]
  by (simp add: plain_field_def)

end
